theory Spec2Isabelle
  imports Complex_Main "HOL-Library.Word"
begin

unbundle bit_operations_syntax

section \<open>Rotation-matrix relaxations: data model\<close>

text \<open>
  The development embeds the rotation-constraint translation unit
  (\<^verbatim>\<open>rotation_constraint.cc\<close>).  C++ \<^verbatim>\<open>double\<close> values are read as
  real numbers (exact arithmetic), C++ \<^verbatim>\<open>int\<close> values as integers, loop counters
  that only run upwards from \<open>0\<close> as natural numbers.

  Every way in which a function can leave without its result is a value of \<open>error\<close>:
  a failed \<^verbatim>\<open>DRAKE_ASSERT\<close>, a failed \<^verbatim>\<open>DRAKE_DEMAND\<close>, a thrown
  \<^verbatim>\<open>std::runtime_error\<close>, and a coefficient read outside the bounds of an Eigen
  object.  Assertions are armed, as in a debug build.
\<close>

datatype error =
    AssertFailed
  | DemandFailed
  | RuntimeError string
  | OutOfBounds

text \<open>A fixed-size vector with three coefficients, indexed by \<open>0, 1, 2\<close>.\<close>

type_synonym 'a vec3 = "'a \<times> 'a \<times> 'a"

fun vec_at :: "'a vec3 \<Rightarrow> nat \<Rightarrow> 'a" where
  "vec_at (x, y, z) i = (if i = 0 then x else if i = 1 then y else z)"

fun vec_upd :: "'a vec3 \<Rightarrow> nat \<Rightarrow> 'a \<Rightarrow> 'a vec3" where
  "vec_upd (x, y, z) i a =
     (if i = 0 then (a, y, z) else if i = 1 then (x, a, z) else (x, y, a))"

text \<open>
  \<^verbatim>\<open>Eigen::MatrixXi\<close>: a dynamically sized integer matrix, with its two dimensions
  and its coefficients.  \<open>coeff_at\<close> is the checked read \<^verbatim>\<open>m(r, c)\<close>.
\<close>

record MatrixXi =
  mat_rows :: nat
  mat_cols :: nat
  mat_coeff :: "nat \<Rightarrow> nat \<Rightarrow> int"

definition matrix_of_rows :: "int list list \<Rightarrow> MatrixXi" where
  "matrix_of_rows rs =
     \<lparr> mat_rows = length rs,
       mat_cols = (case rs of [] \<Rightarrow> 0 | r # _ \<Rightarrow> length r),
       mat_coeff = (\<lambda>i j. rs ! i ! j) \<rparr>"

definition in_bounds :: "MatrixXi \<Rightarrow> int \<Rightarrow> nat \<Rightarrow> bool" where
  "in_bounds m r c \<longleftrightarrow> 0 \<le> r \<and> r < int (mat_rows m) \<and> c < mat_cols m"

definition coeff_at :: "MatrixXi \<Rightarrow> int \<Rightarrow> nat \<Rightarrow> error + int" where
  "coeff_at m r c =
     (if in_bounds m r c then Inr (mat_coeff m (nat r) c) else Inl OutOfBounds)"

subsection \<open>Decision variables and symbolic expressions\<close>

datatype var_type = CONTINUOUS | BINARY

datatype Variable = Variable (var_id: nat) (var_name: string) (var_kind: var_type)

datatype Expression =
    Const real
  | Var Variable
  | Add Expression Expression
  | Sub Expression Expression
  | Neg Expression
  | Mul Expression Expression

instantiation Expression :: "{zero, one, plus, minus, uminus, times}"
begin

definition zero_Expression :: Expression where
  "zero_Expression = Const 0"

definition one_Expression :: Expression where
  "one_Expression = Const 1"

definition plus_Expression :: "Expression \<Rightarrow> Expression \<Rightarrow> Expression" where
  "plus_Expression a b = Add a b"

definition minus_Expression :: "Expression \<Rightarrow> Expression \<Rightarrow> Expression" where
  "minus_Expression a b = Sub a b"

definition uminus_Expression :: "Expression \<Rightarrow> Expression" where
  "uminus_Expression a = Neg a"

definition times_Expression :: "Expression \<Rightarrow> Expression \<Rightarrow> Expression" where
  "times_Expression a b = Mul a b"

instance ..

end

text \<open>The value of an expression under an assignment of the decision variables.\<close>

fun evaluate :: "(Variable \<Rightarrow> real) \<Rightarrow> Expression \<Rightarrow> real" where
  "evaluate env (Const c) = c"
| "evaluate env (Var v) = env v"
| "evaluate env (Add a b) = evaluate env a + evaluate env b"
| "evaluate env (Sub a b) = evaluate env a - evaluate env b"
| "evaluate env (Neg a) = - evaluate env a"
| "evaluate env (Mul a b) = evaluate env a * evaluate env b"

subsection \<open>The optimization program\<close>

text \<open>
  Modelled from the spec: the optimization-problem collaborator
  (\<^verbatim>\<open>MathematicalProgram\<close>), whose code is not among the sources.  The spec gives it
  the creation of named continuous decision variables and the registration of
  bounding-box and linear constraints, and asks for a sequence of constraint descriptors;
  the program is the list of its decision variables and the list of its constraints, both
  in the order in which they are added.  A new variable takes the next free identifier;
  the entries of a matrix of new variables are created column by column.

  A linear constraint given as a symbolic formula keeps the formula; a comparison of two
  vectors of expressions is the conjunction of the comparisons of their entries.
\<close>

datatype Formula =
    Leq Expression Expression
  | Geq Expression Expression
  | Conj "Formula list"

datatype Constraint =
    BoundingBoxConstraint "real list" "real list" "Variable list"
  | LinearConstraint "real list" real real "Variable list"
  | LinearFormula Formula

record MathematicalProgram =
  decision_variables :: "Variable list"
  constraints :: "Constraint list"

fun holds :: "(Variable \<Rightarrow> real) \<Rightarrow> Formula \<Rightarrow> bool" where
  "holds env (Leq a b) \<longleftrightarrow> evaluate env a \<le> evaluate env b"
| "holds env (Geq a b) \<longleftrightarrow> evaluate env a \<ge> evaluate env b"
| "holds env (Conj fs) \<longleftrightarrow> list_all (holds env) fs"

text \<open>
  \<open>BoundingBoxConstraint lb ub vars\<close> is \<open>lb \<le> vars \<le> ub\<close> entry by entry;
  \<open>LinearConstraint a lb ub vars\<close> is \<open>lb \<le> a \<cdot> vars \<le> ub\<close>.
\<close>

fun satisfied :: "(Variable \<Rightarrow> real) \<Rightarrow> Constraint \<Rightarrow> bool" where
  "satisfied env (BoundingBoxConstraint lb ub vars) \<longleftrightarrow>
     list_all (\<lambda>(l, u, x). l \<le> env x \<and> env x \<le> u) (zip lb (zip ub vars))"
| "satisfied env (LinearConstraint a lb ub vars) \<longleftrightarrow>
     lb \<le> (\<Sum>(c, x) \<leftarrow> zip a vars. c * env x) \<and> (\<Sum>(c, x) \<leftarrow> zip a vars. c * env x) \<le> ub"
| "satisfied env (LinearFormula f) \<longleftrightarrow> holds env f"

type_synonym MatrixDecisionVariable33 = "Variable vec3 vec3"

fun vec_list :: "'a vec3 \<Rightarrow> 'a list" where
  "vec_list (x, y, z) = [x, y, z]"

definition mat_at :: "'a vec3 vec3 \<Rightarrow> nat \<Rightarrow> nat \<Rightarrow> 'a" where
  "mat_at R i j = vec_at (vec_at R i) j"

definition mat_col :: "'a vec3 vec3 \<Rightarrow> nat \<Rightarrow> 'a vec3" where
  "mat_col R j = (mat_at R 0 j, mat_at R 1 j, mat_at R 2 j)"

definition mat_diagonal :: "'a vec3 vec3 \<Rightarrow> 'a vec3" where
  "mat_diagonal R = (mat_at R 0 0, mat_at R 1 1, mat_at R 2 2)"

definition mat_entries :: "'a vec3 vec3 \<Rightarrow> 'a list" where
  "mat_entries R = vec_list (mat_col R 0) @ vec_list (mat_col R 1) @ vec_list (mat_col R 2)"

definition digit :: "nat \<Rightarrow> string" where
  "digit i = [''0'', ''1'', ''2''] ! i"

definition NewContinuousVariables3 ::
    "string \<Rightarrow> MathematicalProgram \<Rightarrow> Variable vec3 \<times> MathematicalProgram" where
  "NewContinuousVariables3 name prog =
     (let n = length (decision_variables prog);
          x = (\<lambda>i. Variable (n + i) (name @ ''('' @ digit i @ '')'') CONTINUOUS);
          v = (x 0, x 1, x 2)
      in (v, prog\<lparr>decision_variables := decision_variables prog @ vec_list v\<rparr>))"

definition NewContinuousVariables33 ::
    "string \<Rightarrow> MathematicalProgram \<Rightarrow> MatrixDecisionVariable33 \<times> MathematicalProgram" where
  "NewContinuousVariables33 name prog =
     (let n = length (decision_variables prog);
          x = (\<lambda>i j. Variable (n + 3 * j + i)
                 (name @ ''('' @ digit i @ '','' @ digit j @ '')'') CONTINUOUS);
          R = ((x 0 0, x 0 1, x 0 2), (x 1 0, x 1 1, x 1 2), (x 2 0, x 2 1, x 2 2))
      in (R, prog\<lparr>decision_variables := decision_variables prog @ mat_entries R\<rparr>))"

definition AddConstraint :: "Constraint \<Rightarrow> MathematicalProgram \<Rightarrow> MathematicalProgram" where
  "AddConstraint c prog = prog\<lparr>constraints := constraints prog @ [c]\<rparr>"

definition AddBoundingBoxConstraint ::
    "real \<Rightarrow> real \<Rightarrow> Variable list \<Rightarrow> MathematicalProgram \<Rightarrow> MathematicalProgram" where
  "AddBoundingBoxConstraint lb ub vars =
     AddConstraint (BoundingBoxConstraint (replicate (length vars) lb)
                      (replicate (length vars) ub) vars)"

definition AddLinearConstraint ::
    "real list \<Rightarrow> real \<Rightarrow> real \<Rightarrow> Variable list \<Rightarrow> MathematicalProgram \<Rightarrow> MathematicalProgram" where
  "AddLinearConstraint a lb ub vars = AddConstraint (LinearConstraint a lb ub vars)"

definition AddLinearFormula :: "Formula \<Rightarrow> MathematicalProgram \<Rightarrow> MathematicalProgram" where
  "AddLinearFormula f = AddConstraint (LinearFormula f)"

text \<open>
  Modelled from the spec: \<^verbatim>\<open>CeilLog2\<close>, whose code is not among the sources: the
  ceiling of the binary logarithm, the least \<open>k\<close> with \<open>n \<le> 2\<^sup>k\<close> (for \<open>n \<ge> 1\<close>).
\<close>

function CeilLog2 :: "int \<Rightarrow> nat" where
  "CeilLog2 n = (if n \<le> 1 then 0 else Suc (CeilLog2 ((n + 1) div 2)))"
  by pat_completeness auto
termination
  by (relation "measure nat") auto

declare CeilLog2.simps [simp del]

text \<open>
  \<^verbatim>\<open>1 << k\<close> on a 32-bit \<^verbatim>\<open>int\<close>, with the wrap-around of two's complement
  written out.  (A shift by \<open>32\<close> or more has no defined value in C++; it does not occur
  for \<open>k = CeilLog2 n\<close> with \<open>n\<close> a 32-bit integer.)
\<close>

definition shift_left_one :: "nat \<Rightarrow> int" where
  "shift_left_one k =
     (let v = 2 ^ k mod 2 ^ 32 in if v \<ge> 2 ^ 31 then v - 2 ^ 32 else v)"

section \<open>Continuous relaxation constructors\<close>

text \<open>\<^verbatim>\<open>NewRotationMatrixVars(prog, name)\<close>: the new matrix with the updated program.\<close>

definition NewRotationMatrixVars ::
    "MathematicalProgram \<Rightarrow> string \<Rightarrow> MatrixDecisionVariable33 \<times> MathematicalProgram" where
  "NewRotationMatrixVars prog name =
     (case NewContinuousVariables33 name prog of
        (R, prog1) \<Rightarrow>
          let prog2 = AddBoundingBoxConstraint (- 1) 1 (mat_entries R) prog1;
              prog3 = AddLinearConstraint [1, 1, 1] (- 1) 3 (vec_list (mat_diagonal R)) prog2
          in (R, prog3))"

section \<open>Binary-variable encoding layer\<close>

text \<open>
  \<^verbatim>\<open>AddNotInSameOrOppositeOrthantConstraint(prog, B, num_intervals_per_half_axis)\<close>.
  \<open>orthant_row_constraints\<close> is the body of the loop over the rows \<open>i\<close>,
  \<open>orthant_pair_constraints\<close> the body of the loop over the pairs of columns.
\<close>

definition orthant_row_constraints ::
    "MatrixDecisionVariable33 \<Rightarrow> nat \<Rightarrow> nat \<Rightarrow> Variable vec3 \<Rightarrow> Variable vec3 \<Rightarrow> nat \<Rightarrow>
     MathematicalProgram \<Rightarrow> MathematicalProgram" where
  "orthant_row_constraints B col_idx0 col_idx1 t s i prog =
     (let b0 = Var (mat_at B i col_idx0);
          b1 = Var (mat_at B i col_idx1);
          prog1 = AddLinearFormula (Geq (Var (vec_at t i)) (b0 + b1 - 1)) prog;
          prog2 = AddLinearFormula (Geq (b0 + b1 - 1) (- Var (vec_at t i))) prog1;
          prog3 = AddLinearFormula (Geq (Var (vec_at s i)) (b0 - b1)) prog2
      in AddLinearFormula (Geq (b0 - b1) (- Var (vec_at s i))) prog3)"

definition orthant_pair_constraints ::
    "MatrixDecisionVariable33 \<Rightarrow> nat \<times> nat \<Rightarrow> MathematicalProgram \<Rightarrow> MathematicalProgram" where
  "orthant_pair_constraints B column_pair prog =
     (let col_idx0 = fst column_pair;
          col_idx1 = snd column_pair
      in case NewContinuousVariables3 ''t'' prog of
           (t, prog1) \<Rightarrow>
             (case NewContinuousVariables3 ''s'' prog1 of
                (s, prog2) \<Rightarrow>
                  let prog3 = AddLinearFormula
                        (Leq (Var (vec_at t 0) + Var (vec_at t 1) + Var (vec_at t 2)) (Const 2))
                        prog2;
                      prog4 = AddLinearFormula
                        (Leq (Var (vec_at s 0) + Var (vec_at s 1) + Var (vec_at s 2)) (Const 2))
                        prog3
                  in fold (orthant_row_constraints B col_idx0 col_idx1 t s) [0, 1, 2] prog4))"

definition AddNotInSameOrOppositeOrthantConstraint ::
    "MathematicalProgram \<Rightarrow> MatrixDecisionVariable33 \<Rightarrow> int \<Rightarrow> MathematicalProgram" where
  "AddNotInSameOrOppositeOrthantConstraint prog B num_intervals_per_half_axis =
     (if num_intervals_per_half_axis = shift_left_one (CeilLog2 num_intervals_per_half_axis)
      then fold (orthant_pair_constraints B) [(0, 1), (0, 2), (1, 2)] prog
      else prog)"

section \<open>Orthant and interval indexing\<close>

text \<open>
  \<^verbatim>\<open>PickBinaryExpressionGivenInterval<Scalar, Derived>(interval_idx, gray_codes, b)\<close>.
  The template is instantiated at \<^verbatim>\<open>double\<close> and at symbolic expressions; the model is
  polymorphic in the scalar.  The two \<^verbatim>\<open>DRAKE_ASSERT\<close>s come first, then the loop
  over the columns of the table; each read of the table and of \<open>b\<close> is checked.
\<close>

fun pick_loop :: "int \<Rightarrow> MatrixXi \<Rightarrow> 'a list \<Rightarrow> nat list \<Rightarrow> 'a \<Rightarrow>
    error + ('a :: {zero, one, plus, minus})" where
  "pick_loop interval_idx gray_codes b [] ret = Inr ret"
| "pick_loop interval_idx gray_codes b (i # is) ret =
     (case coeff_at gray_codes interval_idx i of
        Inl e \<Rightarrow> Inl e
      | Inr g \<Rightarrow>
          if i < length b
          then pick_loop interval_idx gray_codes b is
                 (ret + (if g \<noteq> 0 then 1 - b ! i else b ! i))
          else Inl OutOfBounds)"

definition PickBinaryExpressionGivenInterval ::
    "int \<Rightarrow> MatrixXi \<Rightarrow> 'a list \<Rightarrow> error + ('a :: {zero, one, plus, minus})" where
  "PickBinaryExpressionGivenInterval interval_idx gray_codes b =
     (if \<not> (interval_idx \<ge> 0 \<and> interval_idx \<le> int (mat_rows gray_codes))
      then Inl AssertFailed
      else if \<not> (length b = mat_cols gray_codes) then Inl AssertFailed
      else pick_loop interval_idx gray_codes b [0..<mat_cols gray_codes] 0)"

text \<open>The summand that one iteration of the loop adds for column \<open>i\<close>.\<close>

definition pick_term :: "MatrixXi \<Rightarrow> nat \<Rightarrow> 'a list \<Rightarrow> nat \<Rightarrow> ('a :: {zero, one, plus, minus})" where
  "pick_term gray_codes k b i = (if mat_coeff gray_codes k i \<noteq> 0 then 1 - b ! i else b ! i)"

text \<open>Row \<open>j\<close> of a table, read as an assignment of \<open>0/1\<close> values to the variables \<open>bs\<close>.\<close>

definition assigns_row :: "(Variable \<Rightarrow> real) \<Rightarrow> Variable list \<Rightarrow> MatrixXi \<Rightarrow> nat \<Rightarrow> bool" where
  "assigns_row env bs gray_codes j \<longleftrightarrow>
     (\<forall>c < mat_cols gray_codes. env (bs ! c) = of_int (mat_coeff gray_codes j c))"

definition is_binary_table :: "MatrixXi \<Rightarrow> bool" where
  "is_binary_table gray_codes \<longleftrightarrow>
     (\<forall>r < mat_rows gray_codes. \<forall>c < mat_cols gray_codes.
        mat_coeff gray_codes r c = 0 \<or> mat_coeff gray_codes r c = 1)"

definition same_row :: "MatrixXi \<Rightarrow> nat \<Rightarrow> nat \<Rightarrow> bool" where
  "same_row gray_codes j k \<longleftrightarrow>
     (\<forall>c < mat_cols gray_codes. mat_coeff gray_codes j c = mat_coeff gray_codes k c)"

text \<open>
  \<^verbatim>\<open>EnvelopeMinValue(i, num_binary_variables_per_half_axis)\<close>: the breakpoint
  \<open>\<phi>(i) = i / N\<close>, with no check of the range of \<open>i\<close>.
\<close>

definition EnvelopeMinValue :: "int \<Rightarrow> int \<Rightarrow> real" where
  "EnvelopeMinValue i num_binary_variables_per_half_axis =
     real_of_int i / real_of_int num_binary_variables_per_half_axis"

text \<open>
  \<^verbatim>\<open>PositiveAxisIntervalIndexToFullAxisIntervalIndex\<close>.  The orthant mask is
  \<^verbatim>\<open>internal::FlipVector(Vector3i::Ones(), orthant)\<close>; \<^verbatim>\<open>FlipVector\<close> is declared in
  a header that is not part of the sources, so the functions that call it take it as a
  parameter: \<open>flip_i\<close> at integer vectors, \<open>flip_d\<close> at real vectors.
\<close>

definition OrthantToAxisMask :: "(int vec3 \<Rightarrow> nat \<Rightarrow> int vec3) \<Rightarrow> nat \<Rightarrow> int vec3" where
  "OrthantToAxisMask flip_i orthant = flip_i (1, 1, 1) orthant"

definition PositiveAxisIntervalIndexToFullAxisIntervalIndex ::
    "(int vec3 \<Rightarrow> nat \<Rightarrow> int vec3) \<Rightarrow> int vec3 \<Rightarrow> nat \<Rightarrow> int \<Rightarrow> int vec3" where
  "PositiveAxisIntervalIndexToFullAxisIntervalIndex flip_i interval_idx orthant
      num_intervals_per_half_axis =
     (let mask = OrthantToAxisMask flip_i orthant;
          ret = (\<lambda>i. if vec_at mask i > 0
                      then vec_at interval_idx i + num_intervals_per_half_axis
                      else num_intervals_per_half_axis - 1 - vec_at interval_idx i)
      in (ret 0, ret 1, ret 2))"

text \<open>
  \<^verbatim>\<open>internal::CalcBoxBinaryExpressionInOrthant\<close>: one selector expression per axis,
  for the box with interval indices \<open>(xi, yi, zi)\<close> reflected into \<open>orthant\<close>.
\<close>

definition CalcBoxBinaryExpressionInOrthant ::
    "(int vec3 \<Rightarrow> nat \<Rightarrow> int vec3) \<Rightarrow> int \<Rightarrow> int \<Rightarrow> int \<Rightarrow> nat \<Rightarrow> MatrixXi \<Rightarrow>
     ('a list) vec3 \<Rightarrow> int \<Rightarrow> error + ('a :: {zero, one, plus, minus}) vec3" where
  "CalcBoxBinaryExpressionInOrthant flip_i xi yi zi orthant gray_codes B_vec
      num_intervals_per_half_axis =
     (let orthant_box_interval_idx =
            PositiveAxisIntervalIndexToFullAxisIntervalIndex flip_i (xi, yi, zi) orthant
              num_intervals_per_half_axis;
          c = (\<lambda>axis. PickBinaryExpressionGivenInterval
                 (vec_at orthant_box_interval_idx axis) gray_codes (vec_at B_vec axis))
      in case c 0 of Inl e \<Rightarrow> Inl e | Inr c0 \<Rightarrow>
           (case c 1 of Inl e \<Rightarrow> Inl e | Inr c1 \<Rightarrow>
             (case c 2 of Inl e \<Rightarrow> Inl e | Inr c2 \<Rightarrow> Inr (c0, c1, c2))))"

section \<open>Geometry primitives\<close>

type_synonym Vector3d = "real vec3"

fun norm3 :: "Vector3d \<Rightarrow> real" where
  "norm3 (x, y, z) = sqrt (x * x + y * y + z * z)"

fun dot3 :: "Vector3d \<Rightarrow> Vector3d \<Rightarrow> real" where
  "dot3 (a0, a1, a2) (b0, b1, b2) = a0 * b0 + a1 * b1 + a2 * b2"

fun cross3 :: "Vector3d \<Rightarrow> Vector3d \<Rightarrow> Vector3d" where
  "cross3 (a0, a1, a2) (b0, b1, b2) =
     (a1 * b2 - a2 * b1, a2 * b0 - a0 * b2, a0 * b1 - a1 * b0)"

fun sub3 :: "Vector3d \<Rightarrow> Vector3d \<Rightarrow> Vector3d" where
  "sub3 (a0, a1, a2) (b0, b1, b2) = (a0 - b0, a1 - b1, a2 - b2)"

fun scale3 :: "real \<Rightarrow> Vector3d \<Rightarrow> Vector3d" where
  "scale3 c (a0, a1, a2) = (c * a0, c * a1, c * a2)"

fun div3 :: "Vector3d \<Rightarrow> real \<Rightarrow> Vector3d" where
  "div3 (a0, a1, a2) c = (a0 / c, a1 / c, a2 / c)"

fun sum3 :: "Vector3d \<Rightarrow> real" where
  "sum3 (a0, a1, a2) = a0 + a1 + a2"

fun all_nonneg :: "Vector3d \<Rightarrow> bool" where
  "all_nonneg (a0, a1, a2) \<longleftrightarrow> a0 \<ge> 0 \<and> a1 \<ge> 0 \<and> a2 \<ge> 0"

fun all_pos :: "Vector3d \<Rightarrow> bool" where
  "all_pos (a0, a1, a2) \<longleftrightarrow> a0 > 0 \<and> a1 > 0 \<and> a2 > 0"

text \<open>\<^verbatim>\<open>Intercept(x, y)\<close>: the third coordinate on the unit sphere.\<close>

definition Intercept :: "real \<Rightarrow> real \<Rightarrow> error + real" where
  "Intercept x y =
     (if \<not> (x * x + y * y \<le> 1) then Inl AssertFailed
      else Inr (sqrt (1 - x * x - y * y)))"

text \<open>Results of a loop body are collected in order; the first failure ends the loop.\<close>

fun collect :: "('a \<Rightarrow> error + 'b list) \<Rightarrow> 'a list \<Rightarrow> error + 'b list" where
  "collect f [] = Inr []"
| "collect f (x # xs) =
     (case f x of
        Inl e \<Rightarrow> Inl e
      | Inr ys \<Rightarrow> (case collect f xs of Inl e \<Rightarrow> Inl e | Inr zs \<Rightarrow> Inr (ys @ zs)))"

text \<open>
  \<^verbatim>\<open>internal::ComputeBoxEdgesAndSphereIntersection(bmin, bmax)\<close>.
  \<open>box_vertex\<close> is the body of the loop over the eight vertices
  (\<^verbatim>\<open>vertex(axis) = i & (1 << axis) ? bmin(axis) : bmax(axis)\<close>);
  \<open>edge_intersection\<close> is the body of the innermost loop over the edges along \<open>axis\<close>,
  with the two fixed coordinates \<open>val1\<close> and \<open>val2\<close>.
\<close>

definition box_vertex :: "Vector3d \<Rightarrow> Vector3d \<Rightarrow> nat \<Rightarrow> Vector3d" where
  "box_vertex bmin bmax i =
     (let coord = (\<lambda>axis. if i AND push_bit axis 1 \<noteq> 0
                           then vec_at bmin axis else vec_at bmax axis)
      in (coord 0, coord 1, coord 2))"

definition edge_intersection ::
    "Vector3d \<Rightarrow> Vector3d \<Rightarrow> nat \<Rightarrow> real \<Rightarrow> real \<Rightarrow> error + Vector3d list" where
  "edge_intersection bmin bmax axis val1 val2 =
     (let fixed_axis1 = (axis + 1) mod 3;
          fixed_axis2 = (axis + 2) mod 3;
          pt_closer = vec_upd (vec_upd (vec_upd (0, 0, 0) axis (vec_at bmin axis))
                        fixed_axis1 val1) fixed_axis2 val2;
          pt_farther = vec_upd (vec_upd (vec_upd (0, 0, 0) axis (vec_at bmax axis))
                         fixed_axis1 val1) fixed_axis2 val2
      in if norm3 pt_closer < 1 \<and> norm3 pt_farther > 1
         then (case Intercept (vec_at pt_closer fixed_axis1) (vec_at pt_closer fixed_axis2) of
                 Inl e \<Rightarrow> Inl e
               | Inr c \<Rightarrow>
                   Inr [vec_upd (vec_upd (vec_upd (0, 0, 0)
                          fixed_axis1 (vec_at pt_closer fixed_axis1))
                          fixed_axis2 (vec_at pt_closer fixed_axis2)) axis c])
         else Inr [])"

definition edges_along :: "Vector3d \<Rightarrow> Vector3d \<Rightarrow> nat \<Rightarrow> error + Vector3d list" where
  "edges_along bmin bmax axis =
     (let fixed_axis1 = (axis + 1) mod 3;
          fixed_axis2 = (axis + 2) mod 3
      in collect (\<lambda>val1.
           collect (\<lambda>val2. edge_intersection bmin bmax axis val1 val2)
             [vec_at bmin fixed_axis2, vec_at bmax fixed_axis2])
           [vec_at bmin fixed_axis1, vec_at bmax fixed_axis1])"

definition ComputeBoxEdgesAndSphereIntersection ::
    "Vector3d \<Rightarrow> Vector3d \<Rightarrow> error + Vector3d list" where
  "ComputeBoxEdgesAndSphereIntersection bmin bmax =
     (if \<not> (vec_at bmin 0 \<ge> 0 \<and> vec_at bmin 1 \<ge> 0 \<and> vec_at bmin 2 \<ge> 0)
      then Inl AssertFailed
      else if \<not> (vec_at bmax 0 > vec_at bmin 0 \<and> vec_at bmax 1 > vec_at bmin 1 \<and>
                  vec_at bmax 2 > vec_at bmin 2)
      then Inl AssertFailed
      else if \<not> (norm3 bmin \<le> 1) then Inl AssertFailed
      else if \<not> (norm3 bmax \<ge> 1) then Inl AssertFailed
      else if norm3 bmin = 1 then Inr [bmin]
      else if norm3 bmax = 1 then Inr [bmax]
      else (case collect (edges_along bmin bmax) [0, 1, 2] of
              Inl e \<Rightarrow> Inl e
            | Inr crossings \<Rightarrow>
                Inr (filter (\<lambda>vertex. norm3 vertex = 1) (map (box_vertex bmin bmax) [0..<8])
                     @ crossings)))"

text \<open>
  \<^verbatim>\<open>internal::ComputeTriangleOutwardNormal(pt0, pt1, pt2, n, d)\<close>; the two outputs are
  returned as a pair.
\<close>

definition ComputeTriangleOutwardNormal ::
    "Vector3d \<Rightarrow> Vector3d \<Rightarrow> Vector3d \<Rightarrow> error + (Vector3d \<times> real)" where
  "ComputeTriangleOutwardNormal pt0 pt1 pt2 =
     (if \<not> all_nonneg pt0 then Inl DemandFailed
      else if \<not> all_nonneg pt1 then Inl DemandFailed
      else if \<not> all_nonneg pt2 then Inl DemandFailed
      else
        let n = cross3 (sub3 pt2 pt0) (sub3 pt1 pt0);
            n_norm = norm3 n
        in if n_norm < 1 / 1000
           then Inl (RuntimeError ''The points are almost colinear.'')
           else
             let n1 = div3 n n_norm;
                 n2 = (if sum3 n1 < 0 then scale3 (- 1) n1 else n1);
                 d = dot3 pt0 n2
             in if all_nonneg n2 then Inr (n2, d) else Inl DemandFailed)"

text \<open>
  \<^verbatim>\<open>internal::AreAllVerticesCoPlanar(pts, n, d)\<close>: the returned flag with the two
  outputs.  \<open>coplanar_loop\<close> is the loop over \<open>pts[3], pts[4], ...\<close> with its
  \<^verbatim>\<open>break\<close>.
\<close>

fun coplanar_loop :: "Vector3d \<Rightarrow> real \<Rightarrow> Vector3d list \<Rightarrow> bool \<times> Vector3d \<times> real" where
  "coplanar_loop n d [] = (True, n, d)"
| "coplanar_loop n d (p # ps) =
     (if \<bar>dot3 n p - d\<bar> > 1 / 10 ^ 10 then (False, (0, 0, 0), 0)
      else coplanar_loop n d ps)"

definition AreAllVerticesCoPlanar ::
    "Vector3d list \<Rightarrow> error + (bool \<times> Vector3d \<times> real)" where
  "AreAllVerticesCoPlanar pts =
     (if \<not> (length pts \<ge> 3) then Inl DemandFailed
      else case ComputeTriangleOutwardNormal (pts ! 0) (pts ! 1) (pts ! 2) of
             Inl e \<Rightarrow> Inl e
           | Inr (n, d) \<Rightarrow> Inr (coplanar_loop n d (drop 3 pts)))"

text \<open>
  \<^verbatim>\<open>internal::ComputeHalfSpaceRelaxationForBoxSphereIntersection(pts, n, d)\<close>.
  The second-order cone program is solved by an external solver; \<open>solver pts\<close> is the
  pair \<open>(n, d)\<close> that \<^verbatim>\<open>GetSolution\<close> returns after \<^verbatim>\<open>Solve()\<close> for the program
  built from \<open>pts\<close>.
\<close>

type_synonym socp_solver = "Vector3d list \<Rightarrow> Vector3d \<times> real"

definition ComputeHalfSpaceRelaxationForBoxSphereIntersection ::
    "socp_solver \<Rightarrow> Vector3d list \<Rightarrow> error + (Vector3d \<times> real)" where
  "ComputeHalfSpaceRelaxationForBoxSphereIntersection solver pts =
     (if \<not> (length pts \<ge> 3) then Inl DemandFailed
      else case AreAllVerticesCoPlanar pts of
             Inl e \<Rightarrow> Inl e
           | Inr (pts_on_plane, n, d) \<Rightarrow>
               if pts_on_plane then Inr (n, d)
               else
                 (case solver pts of (n', d') \<Rightarrow>
                    if \<not> all_pos n' then Inl DemandFailed
                    else if \<not> (d' > 0 \<and> d' < 1) then Inl DemandFailed
                    else Inr (n', d')))"

text \<open>
  \<^verbatim>\<open>internal::ComputeInnerFacetsForBoxSphereIntersection(pts, A, b)\<close>: the rows of
  \<open>A\<close> with the entries of \<open>b\<close>, in the order in which they are appended.
\<close>

definition facet_of_triangle ::
    "Vector3d list \<Rightarrow> nat \<Rightarrow> nat \<Rightarrow> nat \<Rightarrow> error + (Vector3d \<times> real) list" where
  "facet_of_triangle pts i j k =
     (case ComputeTriangleOutwardNormal (pts ! i) (pts ! j) (pts ! k) of
        Inl e \<Rightarrow> Inl e
      | Inr (c, d) \<Rightarrow>
          let is_valid_halfspace =
                list_all (\<lambda>l. \<not> (l \<noteq> i \<and> l \<noteq> j \<and> l \<noteq> k \<and>
                                  dot3 c (pts ! l) < d - 1 / 10 ^ 10))
                  [0..<length pts]
          in if is_valid_halfspace then Inr [(scale3 (- 1) c, - d)] else Inr [])"

definition ComputeInnerFacetsForBoxSphereIntersection ::
    "Vector3d list \<Rightarrow> error + (Vector3d list \<times> real list)" where
  "ComputeInnerFacetsForBoxSphereIntersection pts =
     (if \<not> list_all all_nonneg pts then Inl DemandFailed
      else case collect (\<lambda>i.
                  collect (\<lambda>j.
                    collect (\<lambda>k. facet_of_triangle pts i j k) [j + 1..<length pts])
                    [i + 1..<length pts])
                  [0..<length pts] of
             Inl e \<Rightarrow> Inl e
           | Inr facets \<Rightarrow> Inr (map fst facets, map snd facets))"

section \<open>McCormick constraint emitter\<close>

text \<open>
  \<^verbatim>\<open>AddMcCormickVectorConstraints\<close> registers constraints one after the other and can
  fail in between (an assertion, a demand or the colinearity error of the geometry).  An
  emitting computation is the list of the constraints it has registered, in order, with
  the error that ended it, if any: what has been registered before a failure stays in
  the program.
\<close>

type_synonym emit = "Constraint list \<times> error option"

definition emit_all :: "Constraint list \<Rightarrow> emit" where
  "emit_all cs = (cs, None)"

definition throw_error :: "error \<Rightarrow> emit" where
  "throw_error e = ([], Some e)"

fun then_emit :: "emit \<Rightarrow> emit \<Rightarrow> emit" where
  "then_emit (ks, Some e) m = (ks, Some e)"
| "then_emit (ks, None) (ks', r) = (ks @ ks', r)"

fun for_each :: "'a list \<Rightarrow> ('a \<Rightarrow> emit) \<Rightarrow> emit" where
  "for_each [] body = ([], None)"
| "for_each (x # xs) body = then_emit (body x) (for_each xs body)"

text \<open>
  Products of numeric vectors with vectors of decision variables, as symbolic
  expressions: \<^verbatim>\<open>a.dot(x)\<close>, \<^verbatim>\<open>a.cross(x)\<close>, and the sum of a vector of
  expressions.
\<close>

fun dot_dv :: "Vector3d \<Rightarrow> Variable vec3 \<Rightarrow> Expression" where
  "dot_dv (a0, a1, a2) (x0, x1, x2) = Const a0 * Var x0 + Const a1 * Var x1 + Const a2 * Var x2"

fun cross_dv :: "Vector3d \<Rightarrow> Variable vec3 \<Rightarrow> Expression vec3" where
  "cross_dv (a0, a1, a2) (x0, x1, x2) =
     (Const a1 * Var x2 - Const a2 * Var x1,
      Const a2 * Var x0 - Const a0 * Var x2,
      Const a0 * Var x1 - Const a1 * Var x0)"

fun sum_e :: "Expression vec3 \<Rightarrow> Expression" where
  "sum_e (c0, c1, c2) = c0 + c1 + c2"

fun map_vec3 :: "('a \<Rightarrow> 'b) \<Rightarrow> 'a vec3 \<Rightarrow> 'b vec3" where
  "map_vec3 f (x, y, z) = (f x, f y, f z)"

text \<open>\<^verbatim>\<open>numeric_limits<double>::epsilon()\<close>.\<close>

definition epsilon :: real where
  "epsilon = 1 / 2 ^ 52"

text \<open>
  The parameters that the emitter takes from outside the sources, bundled:
  \<^verbatim>\<open>FlipVector\<close> at integer and at real vectors, and the solver of the half-space
  program.
\<close>

record externals =
  flip_i :: "int vec3 \<Rightarrow> nat \<Rightarrow> int vec3"
  flip_d :: "Vector3d \<Rightarrow> nat \<Rightarrow> Vector3d"
  socp :: socp_solver

text \<open>
  The body of the loop over the orthants when the box does not meet the sphere: the
  selector expressions of the box in orthant \<open>o\<close>, and the constraint that their sum
  is at least \<open>1\<close>.
\<close>

definition no_intersection_orthant ::
    "externals \<Rightarrow> Variable list vec3 \<Rightarrow> int \<Rightarrow> MatrixXi \<Rightarrow> int \<Rightarrow> int \<Rightarrow> int \<Rightarrow> nat \<Rightarrow> emit" where
  "no_intersection_orthant ext B_i num_intervals_per_half_axis gray_codes xi yi zi orthant =
     (case CalcBoxBinaryExpressionInOrthant (flip_i ext) xi yi zi orthant gray_codes
             (map_vec3 (map Var) B_i) num_intervals_per_half_axis of
        Inl e \<Rightarrow> throw_error e
      | Inr orthant_c \<Rightarrow> emit_all [LinearFormula (Geq (sum_e orthant_c) (Const 1))])"

text \<open>
  The body of the loop over the orthants when one corner of the box is the unique
  intersection point \<open>u\<close>.
\<close>

definition unique_intersection_orthant ::
    "externals \<Rightarrow> Variable vec3 \<Rightarrow> Variable list vec3 \<Rightarrow> Variable vec3 \<Rightarrow> Variable vec3 \<Rightarrow>
     int \<Rightarrow> MatrixXi \<Rightarrow> int \<Rightarrow> int \<Rightarrow> int \<Rightarrow> Vector3d \<Rightarrow> nat \<Rightarrow> emit" where
  "unique_intersection_orthant ext v B_i v1 v2 num_intervals_per_half_axis gray_codes
      xi yi zi unique_intersection orthant =
     (let orthant_u = flip_d ext unique_intersection orthant
      in case CalcBoxBinaryExpressionInOrthant (flip_i ext) xi yi zi orthant gray_codes
                (map_vec3 (map Var) B_i) num_intervals_per_half_axis of
           Inl e \<Rightarrow> throw_error e
         | Inr orthant_c \<Rightarrow>
             let orthant_c_sum = sum_e orthant_c;
                 v_dot_v1 = dot_dv orthant_u v1;
                 v_dot_v2 = dot_dv orthant_u v2;
                 v_cross_v1 = cross_dv orthant_u v1
             in emit_all
                  (concat (map (\<lambda>i.
                     [LinearFormula (Leq (Var (vec_at v i) - Const (vec_at orthant_u i))
                                         (Const 2 * orthant_c_sum)),
                      LinearFormula (Geq (Var (vec_at v i) - Const (vec_at orthant_u i))
                                         (Const (- 2) * orthant_c_sum))]) [0, 1, 2])
                   @ [LinearFormula (Leq v_dot_v1 orthant_c_sum),
                      LinearFormula (Leq (- orthant_c_sum) v_dot_v1),
                      LinearFormula (Leq v_dot_v2 orthant_c_sum),
                      LinearFormula (Leq (- orthant_c_sum) v_dot_v2)]
                   @ concat (map (\<lambda>i.
                       [LinearFormula (Leq (vec_at v_cross_v1 i - Var (vec_at v2 i))
                                           (Const 2 * orthant_c_sum)),
                        LinearFormula (Geq (vec_at v_cross_v1 i - Var (vec_at v2 i))
                                           (Const (- 2) * orthant_c_sum))]) [0, 1, 2])))"

text \<open>
  The body of the loop over the orthants in the general case, with the half-space
  \<open>(normal, d)\<close>, \<open>theta = acos d\<close> and the inner facets \<open>(A, b)\<close> of the box.  The
  negation of a numeric vector is \<open>scale3 (- 1)\<close>.
\<close>

definition general_intersection_orthant ::
    "externals \<Rightarrow> Variable vec3 \<Rightarrow> Variable list vec3 \<Rightarrow> Variable vec3 \<Rightarrow> Variable vec3 \<Rightarrow>
     int \<Rightarrow> MatrixXi \<Rightarrow> int \<Rightarrow> int \<Rightarrow> int \<Rightarrow> Vector3d \<Rightarrow> real \<Rightarrow>
     Vector3d list \<Rightarrow> real list \<Rightarrow> nat \<Rightarrow> emit" where
  "general_intersection_orthant ext v B_i v1 v2 num_intervals_per_half_axis gray_codes
      xi yi zi normal theta A b orthant =
     (let orthant_normal = flip_d ext normal orthant
      in case CalcBoxBinaryExpressionInOrthant (flip_i ext) xi yi zi orthant gray_codes
                (map_vec3 (map Var) B_i) num_intervals_per_half_axis of
           Inl e \<Rightarrow> throw_error e
         | Inr orthant_c \<Rightarrow>
             let orthant_c_sum = sum_e orthant_c;
                 sin_theta = sin theta;
                 v2_minus_normal_cross_v1 =
                   (\<lambda>i. Var (vec_at v2 i) - vec_at (cross_dv orthant_normal v1) i)
             in emit_all
                  (map (\<lambda>(A_row, b_i).
                      let orthant_a = scale3 (- 1) (flip_d ext (scale3 (- 1) A_row) orthant)
                      in LinearFormula (Leq (dot_dv orthant_a v - Const b_i)
                                            (Const (1 - b_i) * orthant_c_sum)))
                     (zip A b)
                   @ (if orthant mod 2 = 0
                      then [LinearConstraint (vec_list orthant_normal) (- 1) 1 (vec_list v)]
                      else [])
                   @ [LinearFormula (Leq (dot_dv orthant_normal v1) (Const sin_theta + orthant_c_sum)),
                      LinearFormula (Geq (dot_dv orthant_normal v1)
                                         (Const (- sin_theta) - orthant_c_sum)),
                      LinearFormula (Leq (dot_dv orthant_normal v2) (Const sin_theta + orthant_c_sum)),
                      LinearFormula (Geq (dot_dv orthant_normal v2)
                                         (Const (- sin_theta) - orthant_c_sum)),
                      LinearFormula (Conj (map (\<lambda>i.
                          Leq (v2_minus_normal_cross_v1 i)
                              (Const (2 * sin (theta / 2)) + Const 2 * orthant_c_sum)) [0, 1, 2])),
                      LinearFormula (Conj (map (\<lambda>i.
                          Geq (v2_minus_normal_cross_v1 i)
                              (Const (- 2 * sin (theta / 2)) - Const 2 * orthant_c_sum))
                          [0, 1, 2]))]))"

text \<open>
  The box of the grid cell \<open>(xi, yi, zi)\<close> and the three cases of the emitter:
  the box meets the sphere (within \<open>2 \<epsilon>\<close>), and then either one of its corners is on the
  sphere (within \<open>2 \<epsilon>\<close>) or not.
\<close>

definition box_min_of :: "int \<Rightarrow> int \<Rightarrow> int \<Rightarrow> int \<Rightarrow> Vector3d" where
  "box_min_of N xi yi zi = (EnvelopeMinValue xi N, EnvelopeMinValue yi N, EnvelopeMinValue zi N)"

definition box_max_of :: "int \<Rightarrow> int \<Rightarrow> int \<Rightarrow> int \<Rightarrow> Vector3d" where
  "box_max_of N xi yi zi =
     (EnvelopeMinValue (xi + 1) N, EnvelopeMinValue (yi + 1) N, EnvelopeMinValue (zi + 1) N)"

definition box_intersects_sphere :: "int \<Rightarrow> int \<Rightarrow> int \<Rightarrow> int \<Rightarrow> bool" where
  "box_intersects_sphere N xi yi zi \<longleftrightarrow>
     norm3 (box_min_of N xi yi zi) \<le> 1 + 2 * epsilon \<and>
     norm3 (box_max_of N xi yi zi) \<ge> 1 - 2 * epsilon"


text \<open>The body of the three nested loops over the grid cells.\<close>

definition McCormickCell ::
    "externals \<Rightarrow> Variable vec3 \<Rightarrow> Variable list vec3 \<Rightarrow> Variable vec3 \<Rightarrow> Variable vec3 \<Rightarrow>
     int \<Rightarrow> MatrixXi \<Rightarrow> int \<Rightarrow> int \<Rightarrow> int \<Rightarrow> emit" where
  "McCormickCell ext v B_i v1 v2 N gray_codes xi yi zi =
     (let box_min = box_min_of N xi yi zi;
          box_max = box_max_of N xi yi zi;
          box_min_norm = norm3 box_min;
          box_max_norm = norm3 box_max
      in if box_min_norm \<le> 1 + 2 * epsilon \<and> box_max_norm \<ge> 1 - 2 * epsilon
         then
           if \<bar>box_min_norm - 1\<bar> < 2 * epsilon \<or> \<bar>box_max_norm - 1\<bar> < 2 * epsilon
           then
             let unique_intersection =
                   (if \<bar>box_min_norm - 1\<bar> < 2 * epsilon
                    then div3 box_min box_min_norm else div3 box_max box_max_norm)
             in for_each [0..<8]
                  (unique_intersection_orthant ext v B_i v1 v2 N gray_codes xi yi zi
                     unique_intersection)
           else
             (case ComputeBoxEdgesAndSphereIntersection box_min box_max of
                Inl e \<Rightarrow> throw_error e
              | Inr pts \<Rightarrow>
                  if \<not> (length pts \<ge> 3) then throw_error DemandFailed
                  else
                    (case ComputeHalfSpaceRelaxationForBoxSphereIntersection (socp ext) pts of
                       Inl e \<Rightarrow> throw_error e
                     | Inr (normal, d) \<Rightarrow>
                         (case ComputeInnerFacetsForBoxSphereIntersection pts of
                            Inl e \<Rightarrow> throw_error e
                          | Inr (A, b) \<Rightarrow>
                              let cos_theta = d;
                                  theta = arccos cos_theta
                              in for_each [0..<8]
                                   (general_intersection_orthant ext v B_i v1 v2 N gray_codes
                                      xi yi zi normal theta A b))))
         else for_each [0..<8] (no_intersection_orthant ext B_i N gray_codes xi yi zi))"




subsection \<open>Vocabulary for the emitter\<close>






subsection \<open>Vocabulary for the program-building functions\<close>

text \<open>
  \<open>aux_vec name n\<close> and \<open>aux_mat name n\<close> are the vector and the matrix of new variables
  that a program with \<open>n\<close> decision variables creates.  \<open>orthant_cut_holds\<close> states
  the inequalities of the orthant cut for one pair of columns, and \<open>orthant_cut_list\<close>
  is the list of constraints that the body of the loop over the pairs registers.
\<close>

definition is_power_of_two :: "int \<Rightarrow> bool" where
  "is_power_of_two n \<longleftrightarrow> (\<exists>m::nat. n = 2 ^ m)"

definition orthant_cut_holds ::
    "(Variable \<Rightarrow> real) \<Rightarrow> MatrixDecisionVariable33 \<Rightarrow> Variable vec3 \<Rightarrow> Variable vec3 \<Rightarrow>
     nat \<Rightarrow> nat \<Rightarrow> bool" where
  "orthant_cut_holds env B t s c0 c1 \<longleftrightarrow>
     env (vec_at t 0) + env (vec_at t 1) + env (vec_at t 2) \<le> 2 \<and>
     env (vec_at s 0) + env (vec_at s 1) + env (vec_at s 2) \<le> 2 \<and>
     (\<forall>i < 3.
        - env (vec_at t i) \<le> env (mat_at B i c0) + env (mat_at B i c1) - 1 \<and>
        env (mat_at B i c0) + env (mat_at B i c1) - 1 \<le> env (vec_at t i) \<and>
        - env (vec_at s i) \<le> env (mat_at B i c0) - env (mat_at B i c1) \<and>
        env (mat_at B i c0) - env (mat_at B i c1) \<le> env (vec_at s i))"

definition orthant_cut_list ::
    "MatrixDecisionVariable33 \<Rightarrow> Variable vec3 \<Rightarrow> Variable vec3 \<Rightarrow> nat \<Rightarrow> nat \<Rightarrow> Constraint list" where
  "orthant_cut_list B t s c0 c1 =
     constraints (fold (orthant_row_constraints B c0 c1 t s) [0, 1, 2]
       (AddLinearFormula
          (Leq (Var (vec_at s 0) + Var (vec_at s 1) + Var (vec_at s 2)) (Const 2))
          (AddLinearFormula
             (Leq (Var (vec_at t 0) + Var (vec_at t 1) + Var (vec_at t 2)) (Const 2))
             \<lparr>decision_variables = [], constraints = []\<rparr>)))"

definition aux_vec :: "string \<Rightarrow> nat \<Rightarrow> Variable vec3" where
  "aux_vec name n =
     (Variable n (name @ ''('' @ digit 0 @ '')'') CONTINUOUS,
      Variable (n + 1) (name @ ''('' @ digit 1 @ '')'') CONTINUOUS,
      Variable (n + 2) (name @ ''('' @ digit 2 @ '')'') CONTINUOUS)"

definition aux_mat :: "string \<Rightarrow> nat \<Rightarrow> MatrixDecisionVariable33" where
  "aux_mat name n =
     (let x = (\<lambda>i j. Variable (n + 3 * j + i)
                 (name @ ''('' @ digit i @ '','' @ digit j @ '')'') CONTINUOUS)
      in ((x 0 0, x 0 1, x 0 2), (x 1 0, x 1 1, x 1 2), (x 2 0, x 2 1, x 2 2)))"

subsection \<open>Vocabulary for the box and its edges\<close>

text \<open>
  \<open>edge_point axis val1 val2 c\<close> is the point with coordinate \<open>c\<close> along \<open>axis\<close> and
  the fixed coordinates \<open>val1\<close>, \<open>val2\<close> on the two other axes
  (\<open>(axis + 1) mod 3\<close> and \<open>(axis + 2) mod 3\<close>).  An edge straddles the sphere when its
  end point at \<open>bmin(axis)\<close> is strictly inside and its end point at \<open>bmax(axis)\<close> is
  strictly outside.
\<close>

definition edge_point :: "nat \<Rightarrow> real \<Rightarrow> real \<Rightarrow> real \<Rightarrow> Vector3d" where
  "edge_point axis val1 val2 c =
     vec_upd (vec_upd (vec_upd (0, 0, 0) axis c) ((axis + 1) mod 3) val1) ((axis + 2) mod 3) val2"

definition straddles :: "Vector3d \<Rightarrow> Vector3d \<Rightarrow> nat \<Rightarrow> real \<Rightarrow> real \<Rightarrow> bool" where
  "straddles bmin bmax axis val1 val2 \<longleftrightarrow>
     norm3 (edge_point axis val1 val2 (vec_at bmin axis)) < 1 \<and>
     norm3 (edge_point axis val1 val2 (vec_at bmax axis)) > 1"

fun in_box :: "Vector3d \<Rightarrow> Vector3d \<Rightarrow> Vector3d \<Rightarrow> bool" where
  "in_box (l0, l1, l2) (u0, u1, u2) (p0, p1, p2) \<longleftrightarrow>
     l0 \<le> p0 \<and> p0 \<le> u0 \<and> l1 \<le> p1 \<and> p1 \<le> u1 \<and> l2 \<le> p2 \<and> p2 \<le> u2"

definition edge_crossing :: "Vector3d \<Rightarrow> Vector3d \<Rightarrow> nat \<Rightarrow> real \<Rightarrow> real \<Rightarrow> Vector3d list" where
  "edge_crossing bmin bmax axis val1 val2 =
     (if straddles bmin bmax axis val1 val2
      then [edge_point axis val1 val2 (sqrt (1 - val1 * val1 - val2 * val2))] else [])"

definition box_precondition :: "Vector3d \<Rightarrow> Vector3d \<Rightarrow> bool" where
  "box_precondition bmin bmax \<longleftrightarrow>
     (vec_at bmin 0 \<ge> 0 \<and> vec_at bmin 1 \<ge> 0 \<and> vec_at bmin 2 \<ge> 0) \<and>
     (vec_at bmax 0 > vec_at bmin 0 \<and> vec_at bmax 1 > vec_at bmin 1 \<and>
      vec_at bmax 2 > vec_at bmin 2) \<and>
     norm3 bmin \<le> 1 \<and> norm3 bmax \<ge> 1"

definition on_sphere_vertices :: "Vector3d \<Rightarrow> Vector3d \<Rightarrow> Vector3d list" where
  "on_sphere_vertices bmin bmax =
     filter (\<lambda>vertex. norm3 vertex = 1) (map (box_vertex bmin bmax) [0..<8])"

definition all_edge_crossings :: "Vector3d \<Rightarrow> Vector3d \<Rightarrow> Vector3d list" where
  "all_edge_crossings bmin bmax =
     concat (map (\<lambda>axis.
       concat (map (\<lambda>val1.
         concat (map (\<lambda>val2. edge_crossing bmin bmax axis val1 val2)
           [vec_at bmin ((axis + 2) mod 3), vec_at bmax ((axis + 2) mod 3)]))
         [vec_at bmin ((axis + 1) mod 3), vec_at bmax ((axis + 1) mod 3)]))
       [0, 1, 2])"

section \<open>Example data\<close>

text \<open>The reflected Gray code on two digits, two binary variables, and the assignment
  that gives the variable with identifier \<open>i\<close> the \<open>i\<close>-th entry of a row.\<close>

definition gray2 :: MatrixXi where
  "gray2 = matrix_of_rows [[0, 0], [0, 1], [1, 1], [1, 0]]"

definition b2 :: "Variable list" where
  "b2 = [Variable 0 ''b0'' BINARY, Variable 1 ''b1'' BINARY]"

definition assignment_of_row :: "int list \<Rightarrow> Variable \<Rightarrow> real" where
  "assignment_of_row row v = of_int (row ! var_id v)"

definition empty_program :: MathematicalProgram where
  "empty_program = \<lparr>decision_variables = [], constraints = []\<rparr>"

definition example_R :: MatrixDecisionVariable33 where
  "example_R = fst (NewRotationMatrixVars empty_program ''R'')"

text \<open>Two stand-ins for the external solver: one that returns a pair satisfying the
  postcondition, one that returns zeros.\<close>

definition example_solver :: socp_solver where
  "example_solver pts = ((1 / 2, 1 / 2, 1 / 2), 1 / 2)"

definition failing_solver :: socp_solver where
  "failing_solver pts = ((0, 0, 0), 0)"









section \<open>Properties of the interval selector\<close>

lemma pick_loop_value:
  assumes "0 \<le> k" and "k < int (mat_rows G)"
    and "\<forall>i \<in> set is. i < mat_cols G \<and> i < length b"
  shows "pick_loop k G b is ret = Inr (foldl (+) ret (map (pick_term G (nat k) b) is))"
  using assms(3)
proof (induction "is" arbitrary: ret)
  case Nil
  show ?case by simp
next
  case (Cons i "is")
  have "in_bounds G k i"
    using assms(1,2) Cons.prems by (simp add: in_bounds_def)
  then have "coeff_at G k i = Inr (mat_coeff G (nat k) i)"
    by (simp add: coeff_at_def)
  moreover have "i < length b" using Cons.prems by simp
  moreover have "\<forall>i \<in> set is. i < mat_cols G \<and> i < length b"
    using Cons.prems by simp
  ultimately show ?case
    using Cons.IH by (simp add: pick_term_def)
qed

lemma evaluate_foldl_plus:
  "evaluate env (foldl (+) r es) = evaluate env r + sum_list (map (evaluate env) es)"
  by (induction es arbitrary: r) (simp_all add: plus_Expression_def)

lemma evaluate_pick_term:
  assumes "i < length bs"
  shows "evaluate env (pick_term G k (map Var bs) i)
       = (if mat_coeff G k i \<noteq> 0 then 1 - env (bs ! i) else env (bs ! i))"
  using assms by (simp add: pick_term_def minus_Expression_def one_Expression_def)

lemma pick_value_symbolic:
  assumes k: "0 \<le> k" "k < int (mat_rows G)" and len: "length bs = mat_cols G"
  shows "\<exists>e. PickBinaryExpressionGivenInterval k G (map Var bs) = Inr e \<and>
             evaluate env e = (\<Sum>i \<leftarrow> [0..<mat_cols G].
                if mat_coeff G (nat k) i \<noteq> 0 then 1 - env (bs ! i) else env (bs ! i))"
proof -
  let ?b = "map Var bs"
  have in_range: "\<forall>i \<in> set [0..<mat_cols G]. i < mat_cols G \<and> i < length ?b"
    using len by simp
  have run: "PickBinaryExpressionGivenInterval k G ?b
      = Inr (foldl (+) 0 (map (pick_term G (nat k) ?b) [0..<mat_cols G]))"
    using k len pick_loop_value [OF k in_range]
    by (simp add: PickBinaryExpressionGivenInterval_def)
  have "map (evaluate env) (map (pick_term G (nat k) ?b) [0..<mat_cols G])
      = map (\<lambda>i. if mat_coeff G (nat k) i \<noteq> 0 then 1 - env (bs ! i) else env (bs ! i))
          [0..<mat_cols G]"
    using len by (simp add: evaluate_pick_term)
  then have "evaluate env (foldl (+) 0 (map (pick_term G (nat k) ?b) [0..<mat_cols G]))
      = (\<Sum>i \<leftarrow> [0..<mat_cols G].
           if mat_coeff G (nat k) i \<noteq> 0 then 1 - env (bs ! i) else env (bs ! i))"
    by (simp only: evaluate_foldl_plus) (simp add: zero_Expression_def)
  with run show ?thesis by blast
qed

lemma sum_list_terms_nonneg:
  fixes f :: "nat \<Rightarrow> real"
  assumes "\<forall>i \<in> set xs. 0 \<le> f i"
  shows "0 \<le> sum_list (map f xs)"
  using assms by (induction xs) auto

lemma sum_list_terms_ge:
  fixes f :: "nat \<Rightarrow> real"
  assumes "\<forall>i \<in> set xs. 0 \<le> f i" and "c \<in> set xs"
  shows "f c \<le> sum_list (map f xs)"
  using assms
proof (induction xs)
  case Nil
  then show ?case by simp
next
  case (Cons x xs)
  have rest: "0 \<le> sum_list (map f xs)"
    using Cons.prems(1) by (intro sum_list_terms_nonneg) simp
  show ?case
  proof (cases "c = x")
    case True
    with rest show ?thesis by simp
  next
    case False
    with Cons have "f c \<le> sum_list (map f xs)" by simp
    moreover have "0 \<le> f x" using Cons.prems(1) by simp
    ultimately show ?thesis by simp
  qed
qed

lemma gray2_dims: "mat_rows gray2 = 4" "mat_cols gray2 = 2"
  by (simp_all add: gray2_def matrix_of_rows_def)

lemma less_2_cases_all: "(\<forall>c<2::nat. P c) \<longleftrightarrow> P 0 \<and> P 1"
  by (auto simp: less_2_cases_iff)

lemma less_4_cases_all: "(\<forall>c<4::nat. P c) \<longleftrightarrow> P 0 \<and> P 1 \<and> P 2 \<and> P 3"
proof -
  have "c < 4 \<longleftrightarrow> c = 0 \<or> c = 1 \<or> c = 2 \<or> c = 3" for c :: nat by arith
  then show ?thesis by auto
qed

lemma gray2_binary: "is_binary_table gray2"
  by (simp add: is_binary_table_def gray2_dims less_2_cases_all less_4_cases_all)
     (simp add: gray2_def matrix_of_rows_def)

text \<open>
  Claim C3.  Let \<open>G\<close> be a table of \<open>0/1\<close> entries, \<open>k\<close> a valid row index, and \<open>bs\<close>
  binary variables, one per column.  Under the assignment that gives \<open>bs\<close> the entries
  of row \<open>j\<close>, the expression built by \<open>PickBinaryExpressionGivenInterval k G bs\<close>
  evaluates to \<open>0\<close> when row \<open>j\<close> is row \<open>k\<close>, and to a value of at least \<open>1\<close> when
  row \<open>j\<close> differs from row \<open>k\<close> (in a Gray-code table, every other row does).
\<close>

theorem pick_binary_expression_gray_row:
  assumes table: "is_binary_table G"
    and k: "0 \<le> k" "k < int (mat_rows G)"
    and j: "j < mat_rows G"
    and len: "length bs = mat_cols G"
    and row: "assigns_row env bs G j"
  shows "\<exists>e. PickBinaryExpressionGivenInterval k G (map Var bs) = Inr e \<and>
             (same_row G j (nat k) \<longrightarrow> evaluate env e = 0) \<and>
             (\<not> same_row G j (nat k) \<longrightarrow> evaluate env e \<ge> 1)"
proof -
  let ?t = "\<lambda>i. if mat_coeff G (nat k) i \<noteq> 0 then 1 - env (bs ! i) else env (bs ! i)"
  from pick_value_symbolic [OF k len, of env]
  obtain e where run: "PickBinaryExpressionGivenInterval k G (map Var bs) = Inr e"
    and val: "evaluate env e = sum_list (map ?t [0..<mat_cols G])"
    by blast
  have kr: "nat k < mat_rows G" using k by simp
  have bit_k: "mat_coeff G (nat k) c = 0 \<or> mat_coeff G (nat k) c = 1" if "c < mat_cols G" for c
    using table kr that by (simp add: is_binary_table_def)
  have bit_j: "mat_coeff G j c = 0 \<or> mat_coeff G j c = 1" if "c < mat_cols G" for c
    using table j that by (simp add: is_binary_table_def)
  have env_c: "env (bs ! c) = of_int (mat_coeff G j c)" if "c < mat_cols G" for c
    using row that by (simp add: assigns_row_def)
  have tval: "?t c = (if mat_coeff G j c = mat_coeff G (nat k) c then 0 else 1)"
    if "c < mat_cols G" for c
    using bit_k [OF that] bit_j [OF that] env_c [OF that] by auto
  have nonneg: "\<forall>i \<in> set [0..<mat_cols G]. 0 \<le> ?t i"
    using tval by simp
  have zero: "evaluate env e = 0" if "same_row G j (nat k)"
  proof -
    have "map ?t [0..<mat_cols G] = map (\<lambda>_. 0) [0..<mat_cols G]"
      using that tval by (simp add: same_row_def)
    then have "sum_list (map ?t [0..<mat_cols G]) = sum_list (map (\<lambda>_. 0::real) [0..<mat_cols G])"
      by (rule arg_cong)
    then show ?thesis using val by simp
  qed
  have pos: "evaluate env e \<ge> 1" if "\<not> same_row G j (nat k)"
  proof -
    from that obtain c where c: "c < mat_cols G"
      and diff: "mat_coeff G j c \<noteq> mat_coeff G (nat k) c"
      by (auto simp: same_row_def)
    have "?t c = 1" using tval [OF c] diff by simp
    moreover have "?t c \<le> sum_list (map ?t [0..<mat_cols G])"
      using nonneg c by (intro sum_list_terms_ge) simp_all
    ultimately show ?thesis using val by simp
  qed
  from run zero pos show ?thesis by blast
qed

theorem pick_binary_expression_gray_row_witness:
  "(\<exists>e. PickBinaryExpressionGivenInterval 2 gray2 (map Var b2) = Inr e \<and>
        evaluate (assignment_of_row [1, 1]) e = 0) \<and>
   (\<exists>e. PickBinaryExpressionGivenInterval 2 gray2 (map Var b2) = Inr e \<and>
        evaluate (assignment_of_row [0, 1]) e \<ge> 1)"
proof -
  have same: "same_row gray2 2 (nat 2)"
    by (simp add: same_row_def)
  have other: "\<not> same_row gray2 1 (nat 2)"
    by (simp add: same_row_def gray2_dims less_2_cases_all) (simp add: gray2_def matrix_of_rows_def)
  have r2: "assigns_row (assignment_of_row [1, 1]) b2 gray2 2"
    by (simp add: assigns_row_def gray2_dims less_2_cases_all)
       (simp add: gray2_def matrix_of_rows_def b2_def assignment_of_row_def)
  have r1: "assigns_row (assignment_of_row [0, 1]) b2 gray2 1"
    by (simp add: assigns_row_def gray2_dims less_2_cases_all)
       (simp add: gray2_def matrix_of_rows_def b2_def assignment_of_row_def)
  have len: "length b2 = mat_cols gray2"
    by (simp add: b2_def gray2_dims)
  show ?thesis
    using pick_binary_expression_gray_row [OF gray2_binary _ _ _ len r2, of 2]
      pick_binary_expression_gray_row [OF gray2_binary _ _ _ len r1, of 2]
      same other
    by (simp add: gray2_dims)
qed

text \<open>
  Claim C10.  The assertion of \<open>PickBinaryExpressionGivenInterval\<close> admits
  \<open>interval_idx = gray_codes.rows()\<close>: on a table with two rows and one column,
  \<open>interval_idx = 2\<close> passes both assertions, and the first read
  \<open>gray_codes(2, 0)\<close> is outside the bounds of the table.
\<close>

theorem pick_assertion_admits_row_past_the_end:
  "0 \<le> (2::int) \<and> (2::int) \<le> int (mat_rows (matrix_of_rows [[0], [1]])) \<and>
   length [0::real] = mat_cols (matrix_of_rows [[0], [1]]) \<and>
   \<not> in_bounds (matrix_of_rows [[0], [1]]) 2 0 \<and>
   PickBinaryExpressionGivenInterval 2 (matrix_of_rows [[0], [1]]) [0::real] = Inl OutOfBounds"
  by (simp add: PickBinaryExpressionGivenInterval_def matrix_of_rows_def coeff_at_def in_bounds_def)

section \<open>Properties of the geometry primitives\<close>

lemma collect_all_Inr:
  assumes "\<And>x. x \<in> set xs \<Longrightarrow> f x = Inr (g x)"
  shows "collect f xs = Inr (concat (map g xs))"
  using assms by (induction xs) simp_all

lemma axis_cases: "axis < 3 \<Longrightarrow> axis = 0 \<or> axis = 1 \<or> axis = (2::nat)"
  by arith

lemma sqrt_sum_less_1D:
  assumes "sqrt (a * a + b * b + c * c) < 1"
  shows "a * a + b * b + c * c < 1"
  using assms by (simp add: real_sqrt_lt_1_iff)

lemma edge_intersection_value:
  assumes "axis < 3"
  shows "edge_intersection bmin bmax axis val1 val2 =
     Inr (edge_crossing bmin bmax axis val1 val2)"
proof -
  obtain l0 l1 l2 where bmin: "bmin = (l0, l1, l2)" by (cases bmin)
  obtain u0 u1 u2 where bmax: "bmax = (u0, u1, u2)" by (cases bmax)
  from axis_cases [OF assms] show ?thesis
  proof (elim disjE)
    assume "axis = 0"
    then show ?thesis
      by (auto simp: edge_intersection_def edge_crossing_def straddles_def edge_point_def bmin bmax Intercept_def Let_def)
         (use zero_le_square [of l0] in linarith)+
  next
    assume "axis = 1"
    then show ?thesis
      by (auto simp: edge_intersection_def edge_crossing_def straddles_def edge_point_def bmin bmax Intercept_def Let_def)
         (use zero_le_square [of l1] in linarith)+
  next
    assume "axis = 2"
    then show ?thesis
      by (auto simp: edge_intersection_def edge_crossing_def straddles_def edge_point_def bmin bmax Intercept_def Let_def)
         (use zero_le_square [of l2] in linarith)+
  qed
qed

lemma edges_along_value:
  assumes "axis < 3"
  shows "edges_along bmin bmax axis =
     Inr (concat (map (\<lambda>val1.
            concat (map (\<lambda>val2. edge_crossing bmin bmax axis val1 val2)
              [vec_at bmin ((axis + 2) mod 3), vec_at bmax ((axis + 2) mod 3)]))
            [vec_at bmin ((axis + 1) mod 3), vec_at bmax ((axis + 1) mod 3)]))"
  unfolding edges_along_def Let_def
  by (intro collect_all_Inr) (rule edge_intersection_value [OF assms])

lemma all_edges_value:
  "collect (edges_along bmin bmax) [0, 1, 2] = Inr (all_edge_crossings bmin bmax)"
  unfolding all_edge_crossings_def
proof (rule collect_all_Inr)
  fix axis :: nat
  assume "axis \<in> set [0, 1, 2]"
  then have "axis < 3" by auto
  then show "edges_along bmin bmax axis =
     Inr (concat (map (\<lambda>val1.
            concat (map (\<lambda>val2. edge_crossing bmin bmax axis val1 val2)
              [vec_at bmin ((axis + 2) mod 3), vec_at bmax ((axis + 2) mod 3)]))
            [vec_at bmin ((axis + 1) mod 3), vec_at bmax ((axis + 1) mod 3)]))"
    by (rule edges_along_value)
qed

lemma compute_general_case:
  assumes "box_precondition bmin bmax" "norm3 bmin \<noteq> 1" "norm3 bmax \<noteq> 1"
  shows "ComputeBoxEdgesAndSphereIntersection bmin bmax =
           Inr (on_sphere_vertices bmin bmax @ all_edge_crossings bmin bmax)"
  unfolding ComputeBoxEdgesAndSphereIntersection_def on_sphere_vertices_def all_edges_value
  using assms by (simp add: box_precondition_def)

lemma upt_0_8: "[0..<8] = [0, 1, 2, 3, 4, 5, 6, 7 :: nat]"
  by (simp add: upt_rec)

lemma unit_cube_vertices:
  "on_sphere_vertices (0, 0, 0) (1, 1, 1) = [(0, 0, 1), (0, 1, 0), (1, 0, 0)]"
  by (simp add: on_sphere_vertices_def upt_0_8 box_vertex_def)

lemma unit_cube_crossings: "all_edge_crossings (0, 0, 0) (1, 1, 1) = []"
  by (simp add: all_edge_crossings_def edge_crossing_def straddles_def edge_point_def)

lemma unit_cube_points:
  "ComputeBoxEdgesAndSphereIntersection (0, 0, 0) (1, 1, 1) = Inr [(0, 0, 1), (0, 1, 0), (1, 0, 0)]"
  by (subst compute_general_case)
     (simp_all add: box_precondition_def unit_cube_vertices unit_cube_crossings)

lemma set_all_edge_crossings:
  "p \<in> set (all_edge_crossings bmin bmax) \<longleftrightarrow>
     (\<exists>axis < 3.
        \<exists>val1 \<in> {vec_at bmin ((axis + 1) mod 3), vec_at bmax ((axis + 1) mod 3)}.
        \<exists>val2 \<in> {vec_at bmin ((axis + 2) mod 3), vec_at bmax ((axis + 2) mod 3)}.
          straddles bmin bmax axis val1 val2 \<and>
          p = edge_point axis val1 val2 (sqrt (1 - val1 * val1 - val2 * val2)))"
  (is "?L \<longleftrightarrow> ?R")
proof
  assume ?L
  then obtain axis val1 val2 where ax: "axis \<in> {0, 1, 2::nat}"
    and v1: "val1 \<in> {vec_at bmin ((axis + 1) mod 3), vec_at bmax ((axis + 1) mod 3)}"
    and v2: "val2 \<in> {vec_at bmin ((axis + 2) mod 3), vec_at bmax ((axis + 2) mod 3)}"
    and p: "p \<in> set (edge_crossing bmin bmax axis val1 val2)"
    unfolding all_edge_crossings_def by fastforce
  from p have "straddles bmin bmax axis val1 val2"
    and "p = edge_point axis val1 val2 (sqrt (1 - val1 * val1 - val2 * val2))"
    by (auto simp: edge_crossing_def split: if_splits)
  moreover have "axis < 3" using ax by auto
  ultimately show ?R using v1 v2 by blast
next
  assume ?R
  then obtain axis val1 val2 where ax: "axis < 3"
    and v1: "val1 \<in> {vec_at bmin ((axis + 1) mod 3), vec_at bmax ((axis + 1) mod 3)}"
    and v2: "val2 \<in> {vec_at bmin ((axis + 2) mod 3), vec_at bmax ((axis + 2) mod 3)}"
    and st: "straddles bmin bmax axis val1 val2"
    and p: "p = edge_point axis val1 val2 (sqrt (1 - val1 * val1 - val2 * val2))"
    by blast
  have "p \<in> set (edge_crossing bmin bmax axis val1 val2)"
    using st p by (simp add: edge_crossing_def)
  moreover have "axis \<in> {0, 1, 2}" using axis_cases [OF ax] by auto
  ultimately show ?L
    using v1 v2 unfolding all_edge_crossings_def by fastforce
qed

lemma crossing_coordinate:
  fixes l u a b :: real
  assumes "0 \<le> l" "l < u"
    and closer: "l * l + a * a + b * b < 1"
    and farther: "1 < u * u + a * a + b * b"
  shows "sqrt (1 - a * a - b * b) * sqrt (1 - a * a - b * b) = 1 - a * a - b * b"
    and "l \<le> sqrt (1 - a * a - b * b)"
    and "sqrt (1 - a * a - b * b) \<le> u"
proof -
  let ?r = "1 - a * a - b * b"
  have "0 \<le> l * l" by simp
  then have r0: "0 \<le> ?r" using closer by linarith
  then show "sqrt ?r * sqrt ?r = ?r" by simp
  have "l\<^sup>2 \<le> ?r" using closer by (simp add: power2_eq_square)
  then show "l \<le> sqrt ?r" by (rule real_le_rsqrt)
  have "?r \<le> u\<^sup>2" using farther by (simp add: power2_eq_square)
  moreover have "0 \<le> u" using assms(1,2) by linarith
  ultimately show "sqrt ?r \<le> u" by (intro real_le_lsqrt) auto
qed

lemma crossing_on_sphere_in_box:
  assumes pre: "box_precondition bmin bmax"
    and ax: "axis < 3"
    and v1: "val1 \<in> {vec_at bmin ((axis + 1) mod 3), vec_at bmax ((axis + 1) mod 3)}"
    and v2: "val2 \<in> {vec_at bmin ((axis + 2) mod 3), vec_at bmax ((axis + 2) mod 3)}"
    and st: "straddles bmin bmax axis val1 val2"
  shows "norm3 (edge_point axis val1 val2 (sqrt (1 - val1 * val1 - val2 * val2))) = 1 \<and>
         in_box bmin bmax (edge_point axis val1 val2 (sqrt (1 - val1 * val1 - val2 * val2)))"
proof -
  obtain l0 l1 l2 where bmin: "bmin = (l0, l1, l2)" by (cases bmin)
  obtain u0 u1 u2 where bmax: "bmax = (u0, u1, u2)" by (cases bmax)
  let ?s = "sqrt (1 - val1 * val1 - val2 * val2)"
  from pre have lo: "0 \<le> l0" "0 \<le> l1" "0 \<le> l2" and lt: "l0 < u0" "l1 < u1" "l2 < u2"
    by (simp_all add: box_precondition_def bmin bmax)
  from axis_cases [OF ax] show ?thesis
  proof (elim disjE)
    assume a: "axis = 0"
    have "l0 * l0 + val1 * val1 + val2 * val2 < 1" "1 < u0 * u0 + val1 * val1 + val2 * val2"
      using st a by (simp_all add: straddles_def edge_point_def bmin bmax)
    note c = crossing_coordinate [OF lo(1) lt(1) this]
    have "l1 \<le> val1 \<and> val1 \<le> u1" "l2 \<le> val2 \<and> val2 \<le> u2"
      using v1 v2 a lt by (auto simp: bmin bmax)
    then show ?thesis
      using c a by (simp add: edge_point_def bmin bmax)
  next
    assume a: "axis = 1"
    have "l1 * l1 + val1 * val1 + val2 * val2 < 1" "1 < u1 * u1 + val1 * val1 + val2 * val2"
      using st a by (simp_all add: straddles_def edge_point_def bmin bmax add.commute add.left_commute)
    note c = crossing_coordinate [OF lo(2) lt(2) this]
    have "l2 \<le> val1 \<and> val1 \<le> u2" "l0 \<le> val2 \<and> val2 \<le> u0"
      using v1 v2 a lt by (auto simp: bmin bmax)
    then show ?thesis
      using c a by (simp add: edge_point_def bmin bmax add.commute add.left_commute)
  next
    assume a: "axis = 2"
    have "l2 * l2 + val1 * val1 + val2 * val2 < 1" "1 < u2 * u2 + val1 * val1 + val2 * val2"
      using st a by (simp_all add: straddles_def edge_point_def bmin bmax add.commute add.left_commute)
    note c = crossing_coordinate [OF lo(3) lt(3) this]
    have "l0 \<le> val1 \<and> val1 \<le> u0" "l1 \<le> val2 \<and> val2 \<le> u1"
      using v1 v2 a lt by (auto simp: bmin bmax)
    then show ?thesis
      using c a by (simp add: edge_point_def bmin bmax add.commute add.left_commute)
  qed
qed

lemma box_vertex_in_box:
  assumes "box_precondition bmin bmax"
  shows "in_box bmin bmax (box_vertex bmin bmax i)"
proof -
  obtain l0 l1 l2 where bmin: "bmin = (l0, l1, l2)" by (cases bmin)
  obtain u0 u1 u2 where bmax: "bmax = (u0, u1, u2)" by (cases bmax)
  show ?thesis
    using assms by (simp add: box_precondition_def box_vertex_def bmin bmax)
qed

lemma corners_in_box:
  assumes "box_precondition bmin bmax"
  shows "in_box bmin bmax bmin" "in_box bmin bmax bmax"
proof -
  obtain l0 l1 l2 where bmin: "bmin = (l0, l1, l2)" by (cases bmin)
  obtain u0 u1 u2 where bmax: "bmax = (u0, u1, u2)" by (cases bmax)
  show "in_box bmin bmax bmin" "in_box bmin bmax bmax"
    using assms by (simp_all add: box_precondition_def bmin bmax)
qed

text \<open>
  Claim C9.  For a box with \<open>bmin \<ge> 0\<close>, \<open>bmax > bmin\<close> componentwise and
  \<open>\<parallel>bmin\<parallel> \<le> 1 \<le> \<parallel>bmax\<parallel>\<close>, the function returns a list of points, and every
  point of the list has norm \<open>1\<close> and lies in the box.
\<close>

theorem box_sphere_points_on_sphere_in_box:
  assumes pre: "box_precondition bmin bmax"
  shows "\<exists>pts. ComputeBoxEdgesAndSphereIntersection bmin bmax = Inr pts \<and>
           (\<forall>p \<in> set pts. norm3 p = 1 \<and> in_box bmin bmax p)"
proof (cases "norm3 bmin = 1")
  case True
  then have "ComputeBoxEdgesAndSphereIntersection bmin bmax = Inr [bmin]"
    using pre by (simp add: ComputeBoxEdgesAndSphereIntersection_def box_precondition_def)
  then show ?thesis using True corners_in_box(1) [OF pre] by simp
next
  case min_off: False
  show ?thesis
  proof (cases "norm3 bmax = 1")
    case True
    then have "ComputeBoxEdgesAndSphereIntersection bmin bmax = Inr [bmax]"
      using pre min_off by (simp add: ComputeBoxEdgesAndSphereIntersection_def box_precondition_def)
    then show ?thesis using True corners_in_box(2) [OF pre] by simp
  next
    case False
    have run: "ComputeBoxEdgesAndSphereIntersection bmin bmax =
        Inr (on_sphere_vertices bmin bmax @ all_edge_crossings bmin bmax)"
      using pre min_off False by (rule compute_general_case)
    have "norm3 p = 1 \<and> in_box bmin bmax p" if "p \<in> set (on_sphere_vertices bmin bmax)" for p
      using that box_vertex_in_box [OF pre] by (auto simp: on_sphere_vertices_def)
    moreover have "norm3 p = 1 \<and> in_box bmin bmax p" if "p \<in> set (all_edge_crossings bmin bmax)" for p
      using that crossing_on_sphere_in_box [OF pre] unfolding set_all_edge_crossings by blast
    ultimately show ?thesis using run by auto
  qed
qed

lemma big_cube_vertices: "on_sphere_vertices (0, 0, 0) (2, 2, 2) = []"
  by (simp add: on_sphere_vertices_def upt_0_8 box_vertex_def)

lemma big_cube_pre: "box_precondition (0, 0, 0) (2, 2, 2)"
  by (simp add: box_precondition_def)

text \<open>
  Claim C7.  On the box \<open>bmin = (0,0,0)\<close>, \<open>bmax = (1,1,1)\<close> the function returns
  exactly the three points \<open>(0,0,1)\<close>, \<open>(0,1,0)\<close>, \<open>(1,0,0)\<close>.  A corner on the
  sphere is returned alone, and no edge contributes.  In general (neither corner on the
  sphere) the result is the box vertices on the sphere followed by the edge
  crossings, and a point is an edge crossing exactly when it is the point of an edge
  along \<open>axis\<close>, with fixed coordinates \<open>val1\<close> and \<open>val2\<close>, whose closer end point is
  strictly inside the unit sphere and whose farther end point is strictly outside; its
  coordinate along the edge is \<open>sqrt (1 - val1\<^sup>2 - val2\<^sup>2)\<close>.
\<close>

theorem box_edges_sphere_crossings:
  "ComputeBoxEdgesAndSphereIntersection (0, 0, 0) (1, 1, 1) =
     Inr [(0, 0, 1), (0, 1, 0), (1, 0, 0)] \<and>
   (box_precondition bmin bmax \<and> norm3 bmin = 1 \<longrightarrow>
      ComputeBoxEdgesAndSphereIntersection bmin bmax = Inr [bmin]) \<and>
   (box_precondition bmin bmax \<and> norm3 bmin \<noteq> 1 \<and> norm3 bmax = 1 \<longrightarrow>
      ComputeBoxEdgesAndSphereIntersection bmin bmax = Inr [bmax]) \<and>
   (box_precondition bmin bmax \<and> norm3 bmin \<noteq> 1 \<and> norm3 bmax \<noteq> 1 \<longrightarrow>
     (\<exists>crossings.
        ComputeBoxEdgesAndSphereIntersection bmin bmax =
          Inr (on_sphere_vertices bmin bmax @ crossings) \<and>
        (\<forall>p. p \<in> set crossings \<longleftrightarrow>
           (\<exists>axis < 3.
              \<exists>val1 \<in> {vec_at bmin ((axis + 1) mod 3), vec_at bmax ((axis + 1) mod 3)}.
              \<exists>val2 \<in> {vec_at bmin ((axis + 2) mod 3), vec_at bmax ((axis + 2) mod 3)}.
                straddles bmin bmax axis val1 val2 \<and>
                p = edge_point axis val1 val2 (sqrt (1 - val1 * val1 - val2 * val2))))))"
proof -
  have corner_min: "ComputeBoxEdgesAndSphereIntersection bmin bmax = Inr [bmin]"
    if "box_precondition bmin bmax" "norm3 bmin = 1"
    using that by (simp add: ComputeBoxEdgesAndSphereIntersection_def box_precondition_def)
  have corner_max: "ComputeBoxEdgesAndSphereIntersection bmin bmax = Inr [bmax]"
    if "box_precondition bmin bmax" "norm3 bmin \<noteq> 1" "norm3 bmax = 1"
    using that by (simp add: ComputeBoxEdgesAndSphereIntersection_def box_precondition_def)
  show ?thesis
    using unit_cube_points corner_min corner_max compute_general_case [of bmin bmax]
      set_all_edge_crossings [of _ bmin bmax]
    by blast
qed

theorem box_edges_sphere_crossings_witness:
  "\<exists>crossings.
     ComputeBoxEdgesAndSphereIntersection (0, 0, 0) (2, 2, 2) =
       Inr (on_sphere_vertices (0, 0, 0) (2, 2, 2) @ crossings) \<and>
     (1, 0, 0) \<in> set crossings"
proof -
  have off: "norm3 (0, 0, 0) \<noteq> 1" "norm3 (2, 2, 2) \<noteq> 1"
    by simp_all
  from box_edges_sphere_crossings [of "(0, 0, 0)" "(2, 2, 2)"] big_cube_pre off
  obtain crossings where run: "ComputeBoxEdgesAndSphereIntersection (0, 0, 0) (2, 2, 2) =
        Inr (on_sphere_vertices (0, 0, 0) (2, 2, 2) @ crossings)"
    and mem: "\<And>p. p \<in> set crossings \<longleftrightarrow>
           (\<exists>axis < 3.
              \<exists>val1 \<in> {vec_at (0, 0, 0) ((axis + 1) mod 3), vec_at (2, 2, 2) ((axis + 1) mod 3)}.
              \<exists>val2 \<in> {vec_at (0, 0, 0) ((axis + 2) mod 3), vec_at (2, 2, 2) ((axis + 2) mod 3)}.
                straddles (0, 0, 0) (2, 2, 2) axis val1 val2 \<and>
                p = edge_point axis val1 val2 (sqrt (1 - val1 * val1 - val2 * val2)))"
    by blast
  have "straddles (0, 0, 0) (2, 2, 2) 0 0 0 \<and>
        (1, 0, 0) = edge_point 0 0 0 (sqrt (1 - 0 * 0 - 0 * 0))"
    by (simp add: straddles_def edge_point_def)
  then have "(1, 0, 0) \<in> set crossings"
    unfolding mem by (intro exI [of _ "0::nat"]) simp
  with run show ?thesis by blast
qed

theorem box_sphere_points_on_sphere_in_box_witness:
  "\<exists>pts. ComputeBoxEdgesAndSphereIntersection (0, 0, 0) (2, 2, 2) = Inr pts \<and>
         list_all (\<lambda>p. norm3 p = 1 \<and> in_box (0, 0, 0) (2, 2, 2) p) pts"
  using box_sphere_points_on_sphere_in_box [OF big_cube_pre]
  by (simp add: list_all_iff)

lemma norm3_div3_self:
  assumes "0 < norm3 c"
  shows "norm3 (div3 c (norm3 c)) = 1"
proof -
  obtain x y z where c: "c = (x, y, z)" by (cases c)
  let ?q = "x * x + y * y + z * z"
  have q: "0 < ?q" using assms by (simp add: c)
  have "x * x / ?q + y * y / ?q + z * z / ?q = ?q / ?q"
    by (simp only: add_divide_distrib)
  also have "\<dots> = 1" using q by simp
  finally have "x * x / ?q + y * y / ?q + z * z / ?q = 1" .
  then show ?thesis using q by (simp add: c)
qed

lemma norm3_scale3_minus: "norm3 (scale3 (- 1) c) = norm3 c"
  by (cases c) simp

text \<open>
  Claim C6, as amended.  For three points of the non-negative orthant, let \<open>c\<close> be
  the cross product \<open>(pt2 - pt0) \<times> (pt1 - pt0)\<close>, \<open>u = c / \<parallel>c\<parallel>\<close>, and \<open>n\<close> be \<open>u\<close> with
  its sign flipped when the sum of its components is negative.  If \<open>\<parallel>c\<parallel> < 10\<^sup>-\<^sup>3\<close>
  the function throws; otherwise it returns the unit vector \<open>n\<close> with \<open>d = pt0 \<cdot> n\<close>
  when all components of \<open>n\<close> are non-negative, and fails its \<^verbatim>\<open>DRAKE_DEMAND\<close> when a
  component of \<open>n\<close> is negative.  On \<open>(1,0,0)\<close>, \<open>(0,1,0)\<close>, \<open>(0,0,1)\<close> it returns
  \<open>n = (1/\<surd>3, 1/\<surd>3, 1/\<surd>3)\<close> and \<open>d = 1/\<surd>3\<close>.
\<close>

theorem triangle_outward_normal:
  assumes "all_nonneg pt0" "all_nonneg pt1" "all_nonneg pt2"
  shows "(let c = cross3 (sub3 pt2 pt0) (sub3 pt1 pt0);
              u = div3 c (norm3 c);
              n = (if sum3 u < 0 then scale3 (- 1) u else u)
          in (norm3 c < 1 / 1000 \<longrightarrow>
                ComputeTriangleOutwardNormal pt0 pt1 pt2 =
                  Inl (RuntimeError ''The points are almost colinear.'')) \<and>
             (\<not> norm3 c < 1 / 1000 \<and> all_nonneg n \<longrightarrow>
                ComputeTriangleOutwardNormal pt0 pt1 pt2 = Inr (n, dot3 pt0 n) \<and> norm3 n = 1) \<and>
             (\<not> norm3 c < 1 / 1000 \<and> \<not> all_nonneg n \<longrightarrow>
                ComputeTriangleOutwardNormal pt0 pt1 pt2 = Inl DemandFailed)) \<and>
         ComputeTriangleOutwardNormal (1, 0, 0) (0, 1, 0) (0, 0, 1) =
           Inr ((1 / sqrt 3, 1 / sqrt 3, 1 / sqrt 3), 1 / sqrt 3)"
proof -
  let ?c = "cross3 (sub3 pt2 pt0) (sub3 pt1 pt0)"
  let ?u = "div3 ?c (norm3 ?c)"
  let ?n = "if sum3 ?u < 0 then scale3 (- 1) ?u else ?u"
  have unit: "norm3 ?n = 1" if "\<not> norm3 ?c < 1 / 1000"
  proof -
    have "0 < norm3 ?c" using that by linarith
    then show ?thesis using norm3_div3_self [of ?c] by (simp add: norm3_scale3_minus)
  qed
  have general: "(norm3 ?c < 1 / 1000 \<longrightarrow>
                ComputeTriangleOutwardNormal pt0 pt1 pt2 =
                  Inl (RuntimeError ''The points are almost colinear.'')) \<and>
             (\<not> norm3 ?c < 1 / 1000 \<and> all_nonneg ?n \<longrightarrow>
                ComputeTriangleOutwardNormal pt0 pt1 pt2 = Inr (?n, dot3 pt0 ?n) \<and> norm3 ?n = 1) \<and>
             (\<not> norm3 ?c < 1 / 1000 \<and> \<not> all_nonneg ?n \<longrightarrow>
                ComputeTriangleOutwardNormal pt0 pt1 pt2 = Inl DemandFailed)"
    using assms unit by (simp add: ComputeTriangleOutwardNormal_def Let_def)
  have "sqrt 3 \<ge> 1" by simp
  then have big: "\<not> sqrt 3 < 1 / 1000" by linarith
  have unit_triangle: "ComputeTriangleOutwardNormal (1, 0, 0) (0, 1, 0) (0, 0, 1) =
           Inr ((1 / sqrt 3, 1 / sqrt 3, 1 / sqrt 3), 1 / sqrt 3)"
    using big by (simp add: ComputeTriangleOutwardNormal_def Let_def)
  from general unit_triangle show ?thesis by (simp add: Let_def)
qed

text \<open>
  Claim C6 as stated fails: the points \<open>(0,0,0)\<close>, \<open>(1,1,0)\<close>, \<open>(0,0,1)\<close> are in the
  non-negative orthant and far from colinear, and the function neither returns nor
  throws the colinearity error: the normal \<open>(-1/\<surd>2, 1/\<surd>2, 0)\<close> fails the final
  \<^verbatim>\<open>DRAKE_DEMAND\<close>.
\<close>

theorem triangle_outward_normal_mixed_signs:
  "all_nonneg (0, 0, 0) \<and> all_nonneg (1, 1, 0) \<and> all_nonneg (0, 0, 1) \<and>
   \<not> norm3 (cross3 (sub3 (0, 0, 1) (0, 0, 0)) (sub3 (1, 1, 0) (0, 0, 0))) < 1 / 1000 \<and>
   ComputeTriangleOutwardNormal (0, 0, 0) (1, 1, 0) (0, 0, 1) = Inl DemandFailed"
proof -
  have "sqrt 2 \<ge> 1" by simp
  then have big: "\<not> sqrt 2 < 1 / 1000" by linarith
  then show ?thesis
    by (simp add: ComputeTriangleOutwardNormal_def Let_def)
qed

theorem triangle_outward_normal_witness:
  "ComputeTriangleOutwardNormal (0, 0, 0) (1, 0, 0) (0, 1, 0) = Inr ((0, 0, 1), 0) \<and>
   norm3 (0, 0, 1) = 1 \<and>
   ComputeTriangleOutwardNormal (0, 0, 0) (0, 0, 0) (0, 0, 0) =
     Inl (RuntimeError ''The points are almost colinear.'') \<and>
   ComputeTriangleOutwardNormal (0, 0, 0) (1, 1, 0) (0, 0, 1) = Inl DemandFailed"
proof -
  have "sqrt 2 \<ge> 1" by simp
  then have big: "\<not> sqrt 2 < 1 / 1000" by linarith
  show ?thesis
    using triangle_outward_normal [of "(0, 0, 0)" "(1, 0, 0)" "(0, 1, 0)"]
      triangle_outward_normal [of "(0, 0, 0)" "(0, 0, 0)" "(0, 0, 0)"]
      triangle_outward_normal [of "(0, 0, 0)" "(1, 1, 0)" "(0, 0, 1)"] big
    by (simp add: Let_def)
qed

lemma sqrt_4_25: "sqrt (4 / 25) = 2 / 5"
  by (rule real_sqrt_unique) (simp_all add: power2_eq_square)

lemma flat_triangle:
  "ComputeTriangleOutwardNormal (1, 0, 0) (0, 1, 0) (3 / 5, 4 / 5, 0) = Inr ((0, 0, 1), 0)"
  by (simp add: ComputeTriangleOutwardNormal_def Let_def sqrt_4_25)

lemma flat_coplanar:
  "AreAllVerticesCoPlanar [(1, 0, 0), (0, 1, 0), (3 / 5, 4 / 5, 0)] = Inr (True, (0, 0, 1), 0)"
  by (simp add: AreAllVerticesCoPlanar_def flat_triangle)

text \<open>
  Claim C1 as stated fails: three unit vectors in the plane \<open>z = 0\<close> are co-planar, and
  the early return hands back \<open>n = (0,0,1)\<close> and \<open>d = 0\<close> with no failure.
\<close>

theorem half_space_relaxation_unchecked_return:
  "length [(1, 0, 0), (0, 1, 0), (3 / 5, 4 / 5, 0 :: real)] \<ge> 3 \<and>
   ComputeHalfSpaceRelaxationForBoxSphereIntersection example_solver
     [(1, 0, 0), (0, 1, 0), (3 / 5, 4 / 5, 0)] = Inr ((0, 0, 1), 0) \<and>
   \<not> all_pos (0, 0, 1) \<and> \<not> (0 < (0 :: real))"
  by (simp add: ComputeHalfSpaceRelaxationForBoxSphereIntersection_def flat_coplanar)

lemma triangle_normal_nonneg:
  "ComputeTriangleOutwardNormal pt0 pt1 pt2 = Inr (n, d) \<Longrightarrow> all_nonneg n \<and> d = dot3 pt0 n"
  by (auto simp: ComputeTriangleOutwardNormal_def Let_def split: if_splits)

lemma coplanar_loop_value:
  "coplanar_loop n d ps =
     (if \<forall>p \<in> set ps. \<bar>dot3 n p - d\<bar> \<le> 1 / 10 ^ 10 then (True, n, d)
      else (False, (0, 0, 0), 0))"
  by (induction ps) (auto simp: not_less)

lemma triangle_normal_unit:
  assumes "ComputeTriangleOutwardNormal pt0 pt1 pt2 = Inr (n, d)"
  shows "norm3 n = 1"
proof -
  let ?c = "cross3 (sub3 pt2 pt0) (sub3 pt1 pt0)"
  from assms have big: "\<not> norm3 ?c < 1 / 1000"
    and n: "n = (if sum3 (div3 ?c (norm3 ?c)) < 0 then scale3 (- 1) (div3 ?c (norm3 ?c))
                 else div3 ?c (norm3 ?c))"
    by (auto simp: ComputeTriangleOutwardNormal_def Let_def split: if_splits)
  from big have "0 < norm3 ?c" by linarith
  then show ?thesis
    unfolding n using norm3_div3_self [of ?c] by (simp add: norm3_scale3_minus)
qed

lemma all_vertices_coplanar_value:
  assumes "length pts \<ge> 3"
  shows "AreAllVerticesCoPlanar pts =
     (case ComputeTriangleOutwardNormal (pts ! 0) (pts ! 1) (pts ! 2) of
        Inl e \<Rightarrow> Inl e
      | Inr (n, d) \<Rightarrow>
          Inr (if \<forall>p \<in> set (drop 3 pts). \<bar>dot3 n p - d\<bar> \<le> 1 / 10 ^ 10 then (True, n, d)
               else (False, (0, 0, 0), 0)))"
  using assms
  by (simp add: AreAllVerticesCoPlanar_def coplanar_loop_value split: sum.splits prod.splits)

text \<open>
  Claim C1, as amended.  For a list with at least three points, the function first
  computes the outward unit normal of the triangle of the first three points, and fails
  as that computation fails (the colinearity error, or a failed \<^verbatim>\<open>DRAKE_DEMAND\<close>).
  Otherwise, with \<open>(n, d)\<close> the plane of that triangle: when every further point is
  within \<open>10\<^sup>-\<^sup>1\<^sup>0\<close> of the plane, the function returns \<open>(n, d)\<close> as it is, where
  \<open>n\<close> has norm \<open>1\<close> and non-negative components and \<open>d = pts[0] \<cdot> n\<close>; when some
  further point is off the plane, the function returns the solver's \<open>(n, d)\<close> if \<open>n\<close>
  is strictly positive in all components and \<open>0 < d < 1\<close>, and fails its
  \<^verbatim>\<open>DRAKE_DEMAND\<close> otherwise.  Every returned pair comes from one of these two paths.
\<close>

theorem half_space_relaxation_postcondition:
  assumes len: "length pts \<ge> 3"
  shows
   "(ComputeTriangleOutwardNormal (pts ! 0) (pts ! 1) (pts ! 2) = Inl e \<longrightarrow>
       ComputeHalfSpaceRelaxationForBoxSphereIntersection solver pts = Inl e) \<and>
    (ComputeTriangleOutwardNormal (pts ! 0) (pts ! 1) (pts ! 2) = Inr (n, d) \<and>
     (\<forall>p \<in> set (drop 3 pts). \<bar>dot3 n p - d\<bar> \<le> 1 / 10 ^ 10) \<longrightarrow>
       AreAllVerticesCoPlanar pts = Inr (True, n, d) \<and>
       ComputeHalfSpaceRelaxationForBoxSphereIntersection solver pts = Inr (n, d) \<and>
       norm3 n = 1 \<and> all_nonneg n \<and> d = dot3 (pts ! 0) n) \<and>
    (ComputeTriangleOutwardNormal (pts ! 0) (pts ! 1) (pts ! 2) = Inr (n0, d0) \<and>
     (\<exists>p \<in> set (drop 3 pts). \<bar>dot3 n0 p - d0\<bar> > 1 / 10 ^ 10) \<longrightarrow>
       AreAllVerticesCoPlanar pts = Inr (False, (0, 0, 0), 0) \<and>
       ComputeHalfSpaceRelaxationForBoxSphereIntersection solver pts =
         (if all_pos (fst (solver pts)) \<and> 0 < snd (solver pts) \<and> snd (solver pts) < 1
          then Inr (solver pts) else Inl DemandFailed)) \<and>
    (ComputeHalfSpaceRelaxationForBoxSphereIntersection solver pts = Inr (n, d) \<longrightarrow>
       (ComputeTriangleOutwardNormal (pts ! 0) (pts ! 1) (pts ! 2) = Inr (n, d) \<and>
        (\<forall>p \<in> set (drop 3 pts). \<bar>dot3 n p - d\<bar> \<le> 1 / 10 ^ 10) \<and>
        norm3 n = 1 \<and> all_nonneg n \<and> d = dot3 (pts ! 0) n) \<or>
       ((\<exists>n1 d1. ComputeTriangleOutwardNormal (pts ! 0) (pts ! 1) (pts ! 2) = Inr (n1, d1) \<and>
                 (\<exists>p \<in> set (drop 3 pts). \<bar>dot3 n1 p - d1\<bar> > 1 / 10 ^ 10)) \<and>
        solver pts = (n, d) \<and> all_pos n \<and> 0 < d \<and> d < 1))"
proof -
  let ?tri = "ComputeTriangleOutwardNormal (pts ! 0) (pts ! 1) (pts ! 2)"
  let ?run = "ComputeHalfSpaceRelaxationForBoxSphereIntersection solver pts"
  note cp = all_vertices_coplanar_value [OF len]
  have failed: "?run = Inl e" if tri: "?tri = Inl e" for e
  proof -
    have "AreAllVerticesCoPlanar pts = Inl e" unfolding cp tri by simp
    then show ?thesis
      unfolding ComputeHalfSpaceRelaxationForBoxSphereIntersection_def using len by simp
  qed
  have plane: "AreAllVerticesCoPlanar pts = Inr (True, n, d) \<and> ?run = Inr (n, d) \<and>
       norm3 n = 1 \<and> all_nonneg n \<and> d = dot3 (pts ! 0) n"
    if tri: "?tri = Inr (n, d)" and on: "\<forall>p \<in> set (drop 3 pts). \<bar>dot3 n p - d\<bar> \<le> 1 / 10 ^ 10"
    for n d
  proof -
    have cpv: "AreAllVerticesCoPlanar pts = Inr (True, n, d)"
      unfolding cp tri using on by simp
    have "?run = Inr (n, d)"
      unfolding ComputeHalfSpaceRelaxationForBoxSphereIntersection_def cpv using len by simp
    with cpv triangle_normal_unit [OF tri] triangle_normal_nonneg [OF tri]
    show ?thesis by simp
  qed
  have solved: "AreAllVerticesCoPlanar pts = Inr (False, (0, 0, 0), 0) \<and>
       ?run = (if all_pos (fst (solver pts)) \<and> 0 < snd (solver pts) \<and> snd (solver pts) < 1
          then Inr (solver pts) else Inl DemandFailed)"
    if tri: "?tri = Inr (n0, d0)" and off: "\<exists>p \<in> set (drop 3 pts). \<bar>dot3 n0 p - d0\<bar> > 1 / 10 ^ 10"
    for n0 d0
  proof -
    from off have no: "\<not> (\<forall>p \<in> set (drop 3 pts). \<bar>dot3 n0 p - d0\<bar> \<le> 1 / 10 ^ 10)"
      by (auto simp: not_le)
    have cpv: "AreAllVerticesCoPlanar pts = Inr (False, (0, 0, 0), 0)"
      unfolding cp tri using no by simp
    have "?run = (if all_pos (fst (solver pts)) \<and> 0 < snd (solver pts) \<and> snd (solver pts) < 1
          then Inr (solver pts) else Inl DemandFailed)"
      unfolding ComputeHalfSpaceRelaxationForBoxSphereIntersection_def cpv using len
      by (cases "solver pts") simp
    with cpv show ?thesis by simp
  qed
  have returned: "(?tri = Inr (n, d) \<and>
        (\<forall>p \<in> set (drop 3 pts). \<bar>dot3 n p - d\<bar> \<le> 1 / 10 ^ 10) \<and>
        norm3 n = 1 \<and> all_nonneg n \<and> d = dot3 (pts ! 0) n) \<or>
       ((\<exists>n1 d1. ?tri = Inr (n1, d1) \<and>
                 (\<exists>p \<in> set (drop 3 pts). \<bar>dot3 n1 p - d1\<bar> > 1 / 10 ^ 10)) \<and>
        solver pts = (n, d) \<and> all_pos n \<and> 0 < d \<and> d < 1)"
    if ret: "?run = Inr (n, d)"
  proof (cases ?tri)
    case (Inl e)
    from failed [OF this] ret show ?thesis by simp
  next
    case (Inr nd)
    then obtain n1 d1 where tri: "?tri = Inr (n1, d1)" by (cases nd) auto
    show ?thesis
    proof (cases "\<forall>p \<in> set (drop 3 pts). \<bar>dot3 n1 p - d1\<bar> \<le> 1 / 10 ^ 10")
      case True
      from plane [OF tri True] ret have "n1 = n" "d1 = d" by simp_all
      with plane [OF tri True] tri True show ?thesis by simp
    next
      case False
      then have off: "\<exists>p \<in> set (drop 3 pts). \<bar>dot3 n1 p - d1\<bar> > 1 / 10 ^ 10"
        by (auto simp: not_le)
      from solved [OF tri off] ret
      have "solver pts = (n, d) \<and> all_pos n \<and> 0 < d \<and> d < 1"
        by (cases "solver pts") (auto split: if_splits)
      with tri off show ?thesis by blast
    qed
  qed
  from failed plane solved returned show ?thesis by blast
qed

lemma corner_triangle:
  "ComputeTriangleOutwardNormal (0, 0, 0) (1, 0, 0) (0, 1, 0) = Inr ((0, 0, 1), 0)"
  by (simp add: ComputeTriangleOutwardNormal_def Let_def)

lemma colinear_triangle:
  "ComputeTriangleOutwardNormal (1, 0, 0) (2, 0, 0) (3, 0, 0) =
     Inl (RuntimeError ''The points are almost colinear.'')"
  by (simp add: ComputeTriangleOutwardNormal_def Let_def)

theorem half_space_relaxation_postcondition_witness:
  "ComputeHalfSpaceRelaxationForBoxSphereIntersection example_solver
     [(1, 0, 0), (0, 1, 0), (3 / 5, 4 / 5, 0)] = Inr ((0, 0, 1), 0) \<and>
   norm3 (0, 0, 1) = 1 \<and>
   ComputeHalfSpaceRelaxationForBoxSphereIntersection example_solver
     [(0, 0, 0), (1, 0, 0), (0, 1, 0), (0, 0, 1)] = Inr ((1 / 2, 1 / 2, 1 / 2), 1 / 2) \<and>
   ComputeHalfSpaceRelaxationForBoxSphereIntersection failing_solver
     [(0, 0, 0), (1, 0, 0), (0, 1, 0), (0, 0, 1)] = Inl DemandFailed \<and>
   ComputeHalfSpaceRelaxationForBoxSphereIntersection example_solver
     [(1, 0, 0), (2, 0, 0), (3, 0, 0)] = Inl (RuntimeError ''The points are almost colinear.'')"
proof -
  note t = half_space_relaxation_postcondition
  have flat: "ComputeTriangleOutwardNormal ([(1, 0, 0), (0, 1, 0), (3 / 5, 4 / 5, 0)] ! 0)
      ([(1, 0, 0), (0, 1, 0), (3 / 5, 4 / 5, 0)] ! 1) ([(1, 0, 0), (0, 1, 0), (3 / 5, 4 / 5, 0)] ! 2)
      = Inr ((0, 0, 1), 0) \<and>
     (\<forall>p \<in> set (drop 3 [(1, 0, 0), (0, 1, 0), (3 / 5, 4 / 5, 0 :: real)]).
        \<bar>dot3 (0, 0, 1) p - 0\<bar> \<le> 1 / 10 ^ 10)"
    by (simp add: flat_triangle)
  have a: "ComputeHalfSpaceRelaxationForBoxSphereIntersection example_solver
     [(1, 0, 0), (0, 1, 0), (3 / 5, 4 / 5, 0)] = Inr ((0, 0, 1), 0) \<and> norm3 (0, 0, 1) = 1"
    using t [of "[(1, 0, 0), (0, 1, 0), (3 / 5, 4 / 5, 0)]" _ example_solver "(0, 0, 1)" 0,
        THEN conjunct2, THEN conjunct1, rule_format, OF _ flat]
    by simp
  have corner: "ComputeTriangleOutwardNormal ([(0, 0, 0), (1, 0, 0), (0, 1, 0), (0, 0, 1)] ! 0)
      ([(0, 0, 0), (1, 0, 0), (0, 1, 0), (0, 0, 1)] ! 1)
      ([(0, 0, 0), (1, 0, 0), (0, 1, 0), (0, 0, 1)] ! 2) = Inr ((0, 0, 1), 0) \<and>
     (\<exists>p \<in> set (drop 3 [(0, 0, 0), (1, 0, 0), (0, 1, 0), (0, 0, 1 :: real)]).
        \<bar>dot3 (0, 0, 1) p - 0\<bar> > 1 / 10 ^ 10)"
    by (simp add: corner_triangle)
  have b: "ComputeHalfSpaceRelaxationForBoxSphereIntersection example_solver
     [(0, 0, 0), (1, 0, 0), (0, 1, 0), (0, 0, 1)] = Inr ((1 / 2, 1 / 2, 1 / 2), 1 / 2)"
    using t [of "[(0, 0, 0), (1, 0, 0), (0, 1, 0), (0, 0, 1)]" _ example_solver _ _ "(0, 0, 1)" 0,
        THEN conjunct2, THEN conjunct2, THEN conjunct1, rule_format, OF _ corner]
    by (simp add: example_solver_def)
  have c: "ComputeHalfSpaceRelaxationForBoxSphereIntersection failing_solver
     [(0, 0, 0), (1, 0, 0), (0, 1, 0), (0, 0, 1)] = Inl DemandFailed"
    using t [of "[(0, 0, 0), (1, 0, 0), (0, 1, 0), (0, 0, 1)]" _ failing_solver _ _ "(0, 0, 1)" 0,
        THEN conjunct2, THEN conjunct2, THEN conjunct1, rule_format, OF _ corner]
    by (simp add: failing_solver_def)
  have line: "ComputeTriangleOutwardNormal ([(1, 0, 0), (2, 0, 0), (3, 0, 0)] ! 0)
      ([(1, 0, 0), (2, 0, 0), (3, 0, 0)] ! 1) ([(1, 0, 0), (2, 0, 0), (3, 0, 0)] ! 2)
      = Inl (RuntimeError ''The points are almost colinear.'')"
    by (simp add: colinear_triangle)
  have d: "ComputeHalfSpaceRelaxationForBoxSphereIntersection example_solver
     [(1, 0, 0), (2, 0, 0), (3, 0, 0)] = Inl (RuntimeError ''The points are almost colinear.'')"
    using t [of "[(1, 0, 0), (2, 0, 0), (3, 0, 0)]" _ example_solver,
        THEN conjunct1, rule_format, OF _ line]
    by simp
  from a b c d show ?thesis by blast
qed

section \<open>Properties of the program-building functions\<close>

lemma less_3_cases_all: "(\<forall>i<3::nat. P i) \<longleftrightarrow> P 0 \<and> P 1 \<and> P 2"
proof -
  have "i < 3 \<longleftrightarrow> i = 0 \<or> i = 1 \<or> i = 2" for i :: nat by arith
  then show ?thesis by auto
qed

lemma new_vec:
  "NewContinuousVariables3 name prog =
     (aux_vec name (length (decision_variables prog)),
      prog\<lparr>decision_variables := decision_variables prog
              @ vec_list (aux_vec name (length (decision_variables prog)))\<rparr>)"
  by (simp add: NewContinuousVariables3_def aux_vec_def Let_def)

lemma length_vec_list: "length (vec_list v) = 3"
  by (cases v) simp

lemma orthant_cut_list_length: "length (orthant_cut_list B t s c0 c1) = 14"
  by (simp add: orthant_cut_list_def orthant_row_constraints_def AddLinearFormula_def
      AddConstraint_def Let_def)

lemma orthant_pair_value:
  "orthant_pair_constraints B (c0, c1) prog =
     (let n = length (decision_variables prog);
          t = aux_vec ''t'' n; s = aux_vec ''s'' (n + 3)
      in prog\<lparr>decision_variables := decision_variables prog @ vec_list t @ vec_list s,
               constraints := constraints prog @ orthant_cut_list B t s c0 c1\<rparr>)"
  by (simp add: orthant_pair_constraints_def new_vec orthant_cut_list_def length_vec_list
      orthant_row_constraints_def AddLinearFormula_def AddConstraint_def Let_def)

lemma orthant_cut_list_holds:
  "list_all (satisfied env) (orthant_cut_list B t s c0 c1) \<longleftrightarrow> orthant_cut_holds env B t s c0 c1"
  unfolding orthant_cut_holds_def less_3_cases_all
  by (simp add: orthant_cut_list_def orthant_row_constraints_def AddLinearFormula_def
      AddConstraint_def Let_def plus_Expression_def minus_Expression_def uminus_Expression_def
      one_Expression_def) linarith

lemma ceil_log2_upper: "1 \<le> n \<Longrightarrow> n \<le> 2 ^ CeilLog2 n"
proof (induction n rule: CeilLog2.induct)
  case (1 n)
  show ?case
  proof (cases "n \<le> 1")
    case True
    then show ?thesis by (simp add: CeilLog2.simps [of n])
  next
    case False
    then have "1 \<le> (n + 1) div 2" by linarith
    with 1 False have "(n + 1) div 2 \<le> 2 ^ CeilLog2 ((n + 1) div 2)" by simp
    moreover have "n \<le> 2 * ((n + 1) div 2)" by linarith
    ultimately show ?thesis using False by (simp add: CeilLog2.simps [of n])
  qed
qed

lemma ceil_log2_least: "n \<le> 2 ^ k \<Longrightarrow> CeilLog2 n \<le> k"
proof (induction n arbitrary: k rule: CeilLog2.induct)
  case (1 n)
  show ?case
  proof (cases "n \<le> 1")
    case True
    then show ?thesis by (simp add: CeilLog2.simps [of n])
  next
    case False
    with 1(2) have "k \<noteq> 0" by (cases k) auto
    then obtain k' where k: "k = Suc k'" by (cases k) auto
    with 1(2) have "n \<le> 2 * 2 ^ k'" by simp
    then have "(n + 1) div 2 \<le> 2 ^ k'" by linarith
    with 1(1) False have "CeilLog2 ((n + 1) div 2) \<le> k'" by simp
    then show ?thesis using False k by (simp add: CeilLog2.simps [of n])
  qed
qed

lemma ceil_log2_power: "CeilLog2 (2 ^ m) = m"
proof (rule antisym)
  show "CeilLog2 (2 ^ m) \<le> m" by (rule ceil_log2_least) simp
  have "(2::int) ^ m \<le> 2 ^ CeilLog2 (2 ^ m)" by (rule ceil_log2_upper) simp
  then show "m \<le> CeilLog2 (2 ^ m)" by simp
qed

lemma shift_left_one_small: "k \<le> 30 \<Longrightarrow> shift_left_one k = 2 ^ k"
proof -
  assume k: "k \<le> 30"
  then have "(2::int) ^ k \<le> 2 ^ 30" by (intro power_increasing) simp_all
  then have "(2::int) ^ k < 2 ^ 31" "(2::int) ^ k < 2 ^ 32" by simp_all
  then show ?thesis by (simp add: shift_left_one_def Let_def)
qed

lemma shift_left_one_31: "shift_left_one 31 = - (2 ^ 31)"
  by (simp add: shift_left_one_def Let_def)

lemma power_of_two_test:
  assumes "1 \<le> N" "N < 2 ^ 31"
  shows "N = shift_left_one (CeilLog2 N) \<longleftrightarrow> is_power_of_two N"
proof
  assume eq: "N = shift_left_one (CeilLog2 N)"
  have "CeilLog2 N \<le> 31" using assms(2) by (intro ceil_log2_least) simp
  then consider "CeilLog2 N \<le> 30" | "CeilLog2 N = 31" by linarith
  then show "is_power_of_two N"
  proof cases
    case 1
    then have "N = 2 ^ CeilLog2 N" using eq shift_left_one_small by simp
    then show ?thesis unfolding is_power_of_two_def by blast
  next
    case 2
    then have "N = - (2 ^ 31)" using eq shift_left_one_31 by simp
    then show ?thesis using assms(1) by simp
  qed
next
  assume "is_power_of_two N"
  then obtain m where m: "N = 2 ^ m" unfolding is_power_of_two_def by blast
  with assms(2) have "(2::int) ^ m < 2 ^ 31" by simp
  then have "m < 31" using power_less_imp_less_exp [of "2::int" m 31] by simp
  then have "shift_left_one m = 2 ^ m" by (intro shift_left_one_small) simp
  then show "N = shift_left_one (CeilLog2 N)" using m by (simp add: ceil_log2_power)
qed

text \<open>
  Claim C4.  For \<open>1 \<le> N < 2\<^sup>3\<^sup>1\<close> (the positive values of a 32-bit \<^verbatim>\<open>int\<close>):
  when \<open>N\<close> is a power of two, the function adds, for each of the column pairs
  \<open>(0,1)\<close>, \<open>(0,2)\<close>, \<open>(1,2)\<close>, two vectors \<open>t\<close> and \<open>s\<close> of three new continuous
  variables and constraints that hold exactly when \<open>sum(t) \<le> 2\<close>, \<open>sum(s) \<le> 2\<close>,
  \<open>-t(i) \<le> B(i,c0) + B(i,c1) - 1 \<le> t(i)\<close> and \<open>-s(i) \<le> B(i,c0) - B(i,c1) \<le> s(i)\<close>
  for the three rows \<open>i\<close>; when \<open>N\<close> is not a power of two, the program is returned
  unchanged, without a failure.
\<close>

theorem not_in_same_or_opposite_orthant:
  assumes "1 \<le> N" "N < 2 ^ 31"
  shows "(is_power_of_two N \<longrightarrow>
          (\<exists>t01 s01 t02 s02 t12 s12 added.
             AddNotInSameOrOppositeOrthantConstraint prog B N =
               prog\<lparr>decision_variables := decision_variables prog
                        @ vec_list t01 @ vec_list s01 @ vec_list t02 @ vec_list s02
                        @ vec_list t12 @ vec_list s12,
                     constraints := constraints prog @ added\<rparr> \<and>
             list_all (\<lambda>x. var_kind x = CONTINUOUS \<and> length (decision_variables prog) \<le> var_id x)
               (vec_list t01 @ vec_list s01 @ vec_list t02 @ vec_list s02
                @ vec_list t12 @ vec_list s12) \<and>
             distinct (map var_id (vec_list t01 @ vec_list s01 @ vec_list t02 @ vec_list s02
                @ vec_list t12 @ vec_list s12)) \<and>
             length added = 42 \<and>
             (\<forall>env. list_all (satisfied env) added \<longleftrightarrow>
                orthant_cut_holds env B t01 s01 0 1 \<and>
                orthant_cut_holds env B t02 s02 0 2 \<and>
                orthant_cut_holds env B t12 s12 1 2))) \<and>
         (\<not> is_power_of_two N \<longrightarrow> AddNotInSameOrOppositeOrthantConstraint prog B N = prog)"
proof (intro conjI impI)
  assume "\<not> is_power_of_two N"
  then show "AddNotInSameOrOppositeOrthantConstraint prog B N = prog"
    using power_of_two_test [OF assms]
    by (simp add: AddNotInSameOrOppositeOrthantConstraint_def)
next
  assume pow: "is_power_of_two N"
  define n where "n = length (decision_variables prog)"
  define t01 where "t01 = aux_vec ''t'' n"
  define s01 where "s01 = aux_vec ''s'' (n + 3)"
  define t02 where "t02 = aux_vec ''t'' (n + 6)"
  define s02 where "s02 = aux_vec ''s'' (n + 9)"
  define t12 where "t12 = aux_vec ''t'' (n + 12)"
  define s12 where "s12 = aux_vec ''s'' (n + 15)"
  define added where "added = orthant_cut_list B t01 s01 0 1 @ orthant_cut_list B t02 s02 0 2
      @ orthant_cut_list B t12 s12 1 2"
  have run: "AddNotInSameOrOppositeOrthantConstraint prog B N =
      prog\<lparr>decision_variables := decision_variables prog
                        @ vec_list t01 @ vec_list s01 @ vec_list t02 @ vec_list s02
                        @ vec_list t12 @ vec_list s12,
           constraints := constraints prog @ added\<rparr>"
    using pow power_of_two_test [OF assms]
    by (simp add: AddNotInSameOrOppositeOrthantConstraint_def orthant_pair_value Let_def
        length_vec_list n_def t01_def s01_def t02_def s02_def t12_def s12_def added_def
        add.commute add.left_commute)
  have kinds: "list_all (\<lambda>x. var_kind x = CONTINUOUS \<and> length (decision_variables prog) \<le> var_id x)
               (vec_list t01 @ vec_list s01 @ vec_list t02 @ vec_list s02
                @ vec_list t12 @ vec_list s12)"
    by (simp add: t01_def s01_def t02_def s02_def t12_def s12_def aux_vec_def n_def)
  have ids: "distinct (map var_id (vec_list t01 @ vec_list s01 @ vec_list t02 @ vec_list s02
                @ vec_list t12 @ vec_list s12))"
    by (simp add: t01_def s01_def t02_def s02_def t12_def s12_def aux_vec_def)
  have len: "length added = 42"
    by (simp add: added_def orthant_cut_list_length)
  have sem: "\<forall>env. list_all (satisfied env) added \<longleftrightarrow>
                orthant_cut_holds env B t01 s01 0 1 \<and>
                orthant_cut_holds env B t02 s02 0 2 \<and>
                orthant_cut_holds env B t12 s12 1 2"
    by (simp add: added_def orthant_cut_list_holds)
  from run kinds ids len sem
  show "\<exists>t01 s01 t02 s02 t12 s12 added.
             AddNotInSameOrOppositeOrthantConstraint prog B N =
               prog\<lparr>decision_variables := decision_variables prog
                        @ vec_list t01 @ vec_list s01 @ vec_list t02 @ vec_list s02
                        @ vec_list t12 @ vec_list s12,
                     constraints := constraints prog @ added\<rparr> \<and>
             list_all (\<lambda>x. var_kind x = CONTINUOUS \<and> length (decision_variables prog) \<le> var_id x)
               (vec_list t01 @ vec_list s01 @ vec_list t02 @ vec_list s02
                @ vec_list t12 @ vec_list s12) \<and>
             distinct (map var_id (vec_list t01 @ vec_list s01 @ vec_list t02 @ vec_list s02
                @ vec_list t12 @ vec_list s12)) \<and>
             length added = 42 \<and>
             (\<forall>env. list_all (satisfied env) added \<longleftrightarrow>
                orthant_cut_holds env B t01 s01 0 1 \<and>
                orthant_cut_holds env B t02 s02 0 2 \<and>
                orthant_cut_holds env B t12 s12 1 2)"
    by blast
qed

lemma three_not_power_of_two: "\<not> is_power_of_two 3"
proof
  assume "is_power_of_two 3"
  then obtain m :: nat where m: "(3::int) = 2 ^ m" unfolding is_power_of_two_def by blast
  show False
  proof (cases m)
    case 0
    with m show False by simp
  next
    case (Suc k)
    with m have "(2::int) * 2 ^ k = 3" by simp
    then show False by presburger
  qed
qed

lemma two_power_of_two: "is_power_of_two 2"
  unfolding is_power_of_two_def by (rule exI [of _ 1]) simp

theorem not_in_same_or_opposite_orthant_witness:
  "length (decision_variables (AddNotInSameOrOppositeOrthantConstraint empty_program example_R 2)) = 18 \<and>
   length (constraints (AddNotInSameOrOppositeOrthantConstraint empty_program example_R 2)) = 42 \<and>
   AddNotInSameOrOppositeOrthantConstraint empty_program example_R 3 = empty_program"
proof -
  have a: "AddNotInSameOrOppositeOrthantConstraint empty_program example_R 3 = empty_program"
    using not_in_same_or_opposite_orthant [of 3 empty_program example_R] three_not_power_of_two
    by simp
  from not_in_same_or_opposite_orthant [of 2 empty_program example_R] two_power_of_two
  obtain t01 s01 t02 s02 t12 s12 added where
    run: "AddNotInSameOrOppositeOrthantConstraint empty_program example_R 2 =
               empty_program\<lparr>decision_variables := decision_variables empty_program
                        @ vec_list t01 @ vec_list s01 @ vec_list t02 @ vec_list s02
                        @ vec_list t12 @ vec_list s12,
                     constraints := constraints empty_program @ added\<rparr>"
    and len: "length added = 42"
    by auto
  from run len a show ?thesis
    by (simp add: empty_program_def length_vec_list)
qed

lemma length_mat_entries: "length (mat_entries R) = 9"
  by (simp add: mat_entries_def length_vec_list)

text \<open>
  Claim C8.  \<open>NewRotationMatrixVars\<close> adds nine new continuous decision variables, the
  entries of the returned \<open>3 \<times> 3\<close> matrix \<open>R\<close>, and exactly two constraints: a
  bounding-box constraint that holds exactly when \<open>-1 \<le> R(i,j) \<le> 1\<close> for every entry,
  and one linear constraint that holds exactly when
  \<open>-1 \<le> R(0,0) + R(1,1) + R(2,2) \<le> 3\<close>.
\<close>

theorem new_rotation_matrix_vars:
  "\<exists>R prog'.
     NewRotationMatrixVars prog name = (R, prog') \<and>
     decision_variables prog' = decision_variables prog @ mat_entries R \<and>
     length (mat_entries R) = 9 \<and>
     list_all (\<lambda>x. var_kind x = CONTINUOUS \<and> length (decision_variables prog) \<le> var_id x)
       (mat_entries R) \<and>
     distinct (map var_id (mat_entries R)) \<and>
     constraints prog' = constraints prog @
       [BoundingBoxConstraint (replicate 9 (- 1)) (replicate 9 1) (mat_entries R),
        LinearConstraint [1, 1, 1] (- 1) 3 [mat_at R 0 0, mat_at R 1 1, mat_at R 2 2]] \<and>
     (\<forall>env. satisfied env
              (BoundingBoxConstraint (replicate 9 (- 1)) (replicate 9 1) (mat_entries R)) \<longleftrightarrow>
            (\<forall>i < 3. \<forall>j < 3. - 1 \<le> env (mat_at R i j) \<and> env (mat_at R i j) \<le> 1)) \<and>
     (\<forall>env. satisfied env
              (LinearConstraint [1, 1, 1] (- 1) 3 [mat_at R 0 0, mat_at R 1 1, mat_at R 2 2]) \<longleftrightarrow>
            - 1 \<le> env (mat_at R 0 0) + env (mat_at R 1 1) + env (mat_at R 2 2) \<and>
            env (mat_at R 0 0) + env (mat_at R 1 1) + env (mat_at R 2 2) \<le> 3)"
proof -
  define R where "R = aux_mat name (length (decision_variables prog))"
  have new: "NewContinuousVariables33 name prog =
      (R, prog\<lparr>decision_variables := decision_variables prog @ mat_entries R\<rparr>)"
    by (simp add: NewContinuousVariables33_def aux_mat_def R_def Let_def)
  have run: "NewRotationMatrixVars prog name =
      (R, prog\<lparr>decision_variables := decision_variables prog @ mat_entries R,
               constraints := constraints prog @
       [BoundingBoxConstraint (replicate 9 (- 1)) (replicate 9 1) (mat_entries R),
        LinearConstraint [1, 1, 1] (- 1) 3 [mat_at R 0 0, mat_at R 1 1, mat_at R 2 2]]\<rparr>)"
    by (simp add: NewRotationMatrixVars_def new Let_def length_mat_entries
        AddBoundingBoxConstraint_def AddLinearConstraint_def AddConstraint_def mat_diagonal_def)
  have entries: "length (mat_entries R) = 9"
    "list_all (\<lambda>x. var_kind x = CONTINUOUS \<and> length (decision_variables prog) \<le> var_id x)
       (mat_entries R)"
    "distinct (map var_id (mat_entries R))"
    by (simp_all add: R_def aux_mat_def mat_entries_def mat_col_def mat_at_def)
  have box: "satisfied env
              (BoundingBoxConstraint (replicate 9 (- 1)) (replicate 9 1) (mat_entries R)) \<longleftrightarrow>
            (\<forall>i < 3. \<forall>j < 3. - 1 \<le> env (mat_at R i j) \<and> env (mat_at R i j) \<le> 1)" for env
    unfolding less_3_cases_all
    by (auto simp: mat_entries_def mat_col_def eval_nat_numeral)
  have trace: "satisfied env
              (LinearConstraint [1, 1, 1] (- 1) 3 [mat_at R 0 0, mat_at R 1 1, mat_at R 2 2]) \<longleftrightarrow>
            - 1 \<le> env (mat_at R 0 0) + env (mat_at R 1 1) + env (mat_at R 2 2) \<and>
            env (mat_at R 0 0) + env (mat_at R 1 1) + env (mat_at R 2 2) \<le> 3" for env
    by (simp add: add.assoc)
  from run entries box trace show ?thesis by simp
qed

theorem new_rotation_matrix_vars_witness:
  "length (decision_variables (snd (NewRotationMatrixVars empty_program ''R''))) = 9 \<and>
   length (constraints (snd (NewRotationMatrixVars empty_program ''R''))) = 2 \<and>
   list_all (satisfied (\<lambda>x. 0)) (constraints (snd (NewRotationMatrixVars empty_program ''R'')))"
proof -
  from new_rotation_matrix_vars [of empty_program "''R''"]
  obtain R prog' where run: "NewRotationMatrixVars empty_program ''R'' = (R, prog')"
    and vars: "decision_variables prog' = decision_variables empty_program @ mat_entries R"
    and len: "length (mat_entries R) = 9"
    and cs: "constraints prog' = constraints empty_program @
       [BoundingBoxConstraint (replicate 9 (- 1)) (replicate 9 1) (mat_entries R),
        LinearConstraint [1, 1, 1] (- 1) 3 [mat_at R 0 0, mat_at R 1 1, mat_at R 2 2]]"
    and box: "\<And>env. satisfied env
              (BoundingBoxConstraint (replicate 9 (- 1)) (replicate 9 1) (mat_entries R)) \<longleftrightarrow>
            (\<forall>i < 3. \<forall>j < 3. - 1 \<le> env (mat_at R i j) \<and> env (mat_at R i j) \<le> 1)"
    by blast
  have "satisfied (\<lambda>x. 0)
          (BoundingBoxConstraint (replicate 9 (- 1)) (replicate 9 1) (mat_entries R))"
    unfolding box by simp
  then show ?thesis using run vars len cs by (simp add: empty_program_def)
qed

section \<open>Properties of the McCormick constraint emitter\<close>




lemma snd_then_emit_None:
  "snd (then_emit m m') = None \<longleftrightarrow> snd m = None \<and> snd m' = None"
  by (cases m; cases m'; cases "snd m") auto




lemma snd_for_each_None:
  "snd (for_each xs body) = None \<longleftrightarrow> (\<forall>x \<in> set xs. snd (body x) = None)"
  by (induction xs) (simp_all add: snd_then_emit_None)




lemma pick_total:
  assumes "0 \<le> k" "k < int (mat_rows G)" "length b = mat_cols G"
  shows "\<exists>e. PickBinaryExpressionGivenInterval k G b = Inr e"
proof -
  have "\<forall>i \<in> set [0..<mat_cols G]. i < mat_cols G \<and> i < length b"
    using assms(3) by simp
  from pick_loop_value [OF assms(1,2) this] assms show ?thesis
    by (simp add: PickBinaryExpressionGivenInterval_def)
qed

lemma calc_box_total:
  assumes x: "0 \<le> xi" "xi < N" and y: "0 \<le> yi" "yi < N" and z: "0 \<le> zi" "zi < N"
    and rows: "2 * N \<le> int (mat_rows G)"
    and len: "length (vec_at B_vec 0) = mat_cols G" "length (vec_at B_vec 1) = mat_cols G"
      "length (vec_at B_vec 2) = mat_cols G"
  shows "\<exists>c. CalcBoxBinaryExpressionInOrthant flip xi yi zi orthant G B_vec N = Inr c"
proof -
  define idx where "idx = PositiveAxisIntervalIndexToFullAxisIntervalIndex flip (xi, yi, zi) orthant N"
  have range: "0 \<le> vec_at idx axis \<and> vec_at idx axis < int (mat_rows G)" if "axis < 3" for axis
    using that x y z rows
    by (auto simp: idx_def PositiveAxisIntervalIndexToFullAxisIntervalIndex_def Let_def)
  obtain c0 where c0: "PickBinaryExpressionGivenInterval (vec_at idx 0) G (vec_at B_vec 0) = Inr c0"
    using pick_total [of "vec_at idx 0" G "vec_at B_vec 0"] range [of 0] len by auto
  obtain c1 where c1: "PickBinaryExpressionGivenInterval (vec_at idx 1) G (vec_at B_vec 1) = Inr c1"
    using pick_total [of "vec_at idx 1" G "vec_at B_vec 1"] range [of 1] len by auto
  obtain c2 where c2: "PickBinaryExpressionGivenInterval (vec_at idx 2) G (vec_at B_vec 2) = Inr c2"
    using pick_total [of "vec_at idx 2" G "vec_at B_vec 2"] range [of 2] len by auto
  show ?thesis
    unfolding CalcBoxBinaryExpressionInOrthant_def Let_def idx_def [symmetric]
    using c0 c1 c2 by simp
qed

lemma no_intersection_cell:
  assumes "\<not> box_intersects_sphere N xi yi zi"
  shows "McCormickCell ext v B_i v1 v2 N gray_codes xi yi zi =
           for_each [0..<8] (no_intersection_orthant ext B_i N gray_codes xi yi zi)"
  using assms by (auto simp: McCormickCell_def box_intersects_sphere_def Let_def)






















lemma no_intersection_orthant_completes:
  assumes "CalcBoxBinaryExpressionInOrthant (flip_i ext) xi yi zi orthant gray_codes
             (map_vec3 (map Var) B_i) N = Inr c"
  shows "snd (no_intersection_orthant ext B_i N gray_codes xi yi zi orthant) = None"
  using assms by (simp add: no_intersection_orthant_def emit_all_def)












lemma no_intersection_cell_runs:
  assumes "\<not> box_intersects_sphere N xi yi zi"
    and "0 \<le> xi" "xi < N" "0 \<le> yi" "yi < N" "0 \<le> zi" "zi < N"
    and "2 * N \<le> int (mat_rows gray_codes)"
    and "length (vec_at B_i 0) = mat_cols gray_codes" "length (vec_at B_i 1) = mat_cols gray_codes"
      "length (vec_at B_i 2) = mat_cols gray_codes"
  shows "snd (McCormickCell ext v B_i v1 v2 N gray_codes xi yi zi) = None"
proof -
  obtain bx bv bz where B: "B_i = (bx, bv, bz)" by (cases B_i) auto
  have "\<exists>c. CalcBoxBinaryExpressionInOrthant (flip_i ext) xi yi zi orthant gray_codes
          (map_vec3 (map Var) B_i) N = Inr c" for orthant
    using assms(2-) by (intro calc_box_total) (simp_all add: B)
  then show ?thesis
    unfolding no_intersection_cell [OF assms(1)] snd_for_each_None
    using no_intersection_orthant_completes by blast
qed






end
